theory Spec2Isabelle
  imports Complex_Main
begin

section \<open>The press engine of svelte-interactions\<close>

text \<open>
  A shallow embedding of \<^verbatim>\<open>createPress\<close> (the press interaction): its interaction
  state, the three lifecycle triggers, \<^verbatim>\<open>cancel\<close>, the keyboard, click, pointer and
  mouse/touch handlers, the keyboard validity check and the hit test.

  Conventions of the embedding.
  \<^item> The Svelte store \<^verbatim>\<open>state\<close>, the public store \<^verbatim>\<open>isPressed\<close>, the registry of
    document/window listeners and everything the engine does to the outside (callbacks,
    dispatched custom events, focus, text selection, \<^verbatim>\<open>preventDefault\<close>,
    \<^verbatim>\<open>stopPropagation\<close>, link opening, re-dispatched key events) are fields of one
    record, \<open>World\<close>; the outside effects are appended to a chronological log.
  \<^item> What the engine reads from its surroundings is a parameter: the configuration
    stores, the platform probes \<^verbatim>\<open>isMac()\<close> and \<^verbatim>\<open>typeof PointerEvent\<close>, the flag
    \<^verbatim>\<open>openLink.isOpening\<close>, and the consumer's decision to call
    \<^verbatim>\<open>continuePropagation()\<close> on a press event. The browser heuristics
    \<^verbatim>\<open>isVirtualClick\<close> and \<^verbatim>\<open>isVirtualPointerEvent\<close> are utilities outside the engine;
    their result is a field of the event they are applied to. \<^verbatim>\<open>a.contains(b)\<close> on DOM
    nodes is likewise a field of the event.
  \<^item> \<^verbatim>\<open>const $state = get(state)\<close> is a snapshot: in each handler \<open>s\<close> is the state
    at the place where the source takes it, and later reads of \<^verbatim>\<open>$state\<close> read \<open>s\<close>,
    not the updated store.
  \<^item> The events the engine itself dispatches on the bound element are followed into
    its own handlers: the keyups that the release of Meta replays run the element's
    keyup handler and the document keyup listener. The click that
    \<^verbatim>\<open>openLink(target, e, false)\<close> dispatches runs under \<^verbatim>\<open>openLink.isOpening = false\<close>,
    for which the click handler below returns at once; it is part of the effect
    \<open>OpenLink\<close>.
  \<^item> In the handlers, consumer callbacks are logged and do not call back into the
    engine. The triggers, \<open>cancel\<close> and the document pointermove handler are given a
    second time with callbacks that do, in a subsection of their own.
  \<^item> JavaScript numbers are modelled as real numbers (finite coordinates, no rounding).
  \<^item> \<^verbatim>\<open>destroy\<close> of the action (it restores the text selection and detaches the
    handlers, and writes no state) and the field \<^verbatim>\<open>userSelect\<close> (never read or
    written) are left out.
\<close>

subsection \<open>Elements and native events\<close>

record Rect =
  top :: real
  right :: real
  bottom :: real
  left :: real

record EventPoint =
  clientX :: real
  clientY :: real
  width :: "real option"
  height :: "real option"
  radiusX :: "real option"
  radiusY :: "real option"

datatype ElementClass =
  HTMLInputElement | HTMLTextAreaElement | HTMLButtonElement | HTMLAnchorElement
  | HTMLOtherElement | SVGElement | OtherEventTarget

text \<open>
  An element as far as the engine looks at it: its class (for \<^verbatim>\<open>instanceof\<close>), its
  \<^verbatim>\<open>tagName\<close>, the attribute \<^verbatim>\<open>role\<close> (\<open>None\<close> for \<^verbatim>\<open>null\<close>), whether the attributes
  \<^verbatim>\<open>href\<close> and \<^verbatim>\<open>draggable\<close> are present, the property \<^verbatim>\<open>type\<close> of an input or a
  button, \<^verbatim>\<open>isContentEditable\<close>, and the result of \<^verbatim>\<open>getBoundingClientRect()\<close>.
\<close>

record Element =
  elementClass :: ElementClass
  tagName :: string
  role :: "string option"
  hasHref :: bool
  hasDraggable :: bool
  inputType :: string
  isContentEditable :: bool
  boundingClientRect :: Rect

datatype PointerType = Mouse | Pen | Touch | Keyboard | Virtual

record EventBase =
  currentTarget :: "Element option"
  shiftKey :: bool
  ctrlKey :: bool
  metaKey :: bool
  altKey :: bool

text \<open>
  \<open>targetInside\<close> is the value of \<^verbatim>\<open>X.contains(e.target)\<close> for the bound element
  \<^verbatim>\<open>X\<close> (the handlers ask it of \<^verbatim>\<open>e.currentTarget\<close> and of \<^verbatim>\<open>$state.target\<close>, which
  are both the bound element).
\<close>

record NativeEvent = EventBase +
  targetInside :: bool

record KeyboardEvent = NativeEvent +
  key :: string
  code :: string
  repeat :: bool
  eventTarget :: Element
  linkClicked :: bool

record MouseEvent = NativeEvent +
  button :: int
  mousePoint :: EventPoint
  virtualClick :: bool

record PointerEvent = NativeEvent +
  pointerButton :: int
  pointerId :: int
  pointerPoint :: EventPoint
  eventPointerType :: PointerType
  virtualPointerEvent :: bool

record TouchPoint =
  touchIdentifier :: int
  touchPoint :: EventPoint

record TouchEvent = NativeEvent +
  targetTouches :: "TouchPoint list"
  changedTouches :: "TouchPoint list"

record ScrollEvent =
  scrollTargetContainsTarget :: bool

subsection \<open>Press events, configuration, state\<close>

datatype PressEventType = pressstart | pressend | pressup | press

record PressEvent =
  ev_type :: PressEventType
  ev_pointerType :: PointerType
  ev_target :: "Element option"
  ev_shiftKey :: bool
  ev_ctrlKey :: bool
  ev_metaKey :: bool
  ev_altKey :: bool

definition new_PressEvent ::
  "PressEventType \<Rightarrow> PointerType \<Rightarrow> 'a EventBase_scheme \<Rightarrow> PressEvent" where
  "new_PressEvent ty pt originalEvent =
     \<lparr>ev_type = ty, ev_pointerType = pt, ev_target = currentTarget originalEvent,
      ev_shiftKey = shiftKey originalEvent, ev_ctrlKey = ctrlKey originalEvent,
      ev_metaKey = metaKey originalEvent, ev_altKey = altKey originalEvent\<rparr>"

definition createEvent :: "Element \<Rightarrow> 'a EventBase_scheme \<Rightarrow> EventBase" where
  "createEvent tgt e =
     \<lparr>currentTarget = Some tgt, shiftKey = shiftKey e, ctrlKey = ctrlKey e,
      metaKey = metaKey e, altKey = altKey e\<rparr>"

record PressOpts =
  isDisabled :: bool
  preventFocusOnPress :: bool
  shouldCancelOnPointerExit :: bool
  allowTextSelectionOnPress :: bool

text \<open>
  \<open>continues ev\<close>: some handler of the press event \<open>ev\<close> (the callback or a listener of
  the dispatched custom event) calls \<^verbatim>\<open>continuePropagation()\<close> on it.
\<close>

record Env =
  opts :: PressOpts
  isMac :: bool
  isOpening :: bool
  pointerEventsSupported :: bool
  continues :: "PressEvent \<Rightarrow> bool"

text \<open>
  \<^verbatim>\<open>metaKeyEvents\<close> is a JavaScript \<^verbatim>\<open>Map\<close>, which iterates in insertion order: an
  association list with distinct keys; \<open>None\<close> is \<^verbatim>\<open>undefined\<close>.
\<close>

record PressState =
  isPressed :: bool
  ignoreEmulatedMouseEvents :: bool
  ignoreClickAfterPress :: bool
  didFirePressStart :: bool
  isTriggeringEvent :: bool
  activePointerId :: "int option"
  target :: "Element option"
  isOverTarget :: bool
  pointerType :: "PointerType option"
  metaKeyEvents :: "(string \<times> KeyboardEvent) list option"

datatype GlobalHandler =
  H_onKeyUp | H_onPointerMove | H_onPointerUp | H_onPointerCancel | H_onMouseUp | H_onScroll

datatype Effect =
  Callback PressEvent
  | DispatchEvent PressEvent
  | PressChange bool
  | Focus Element
  | DisableTextSelection Element
  | RestoreTextSelection Element
  | PreventDefault
  | StopPropagation
  | OpenLink Element
  | DispatchKeyUp Element KeyboardEvent

record World =
  state :: PressState
  isPressedStore :: bool
  globalListeners :: "GlobalHandler set"
  effects :: "Effect list"

definition initialState :: PressState where
  "initialState =
     \<lparr>isPressed = False, ignoreEmulatedMouseEvents = False, ignoreClickAfterPress = False,
      didFirePressStart = False, isTriggeringEvent = False, activePointerId = None,
      target = None, isOverTarget = False, pointerType = None, metaKeyEvents = None\<rparr>"

definition initialWorld :: World where
  "initialWorld =
     \<lparr>state = initialState, isPressedStore = False, globalListeners = {}, effects = []\<rparr>"

definition state_update :: "(PressState \<Rightarrow> PressState) \<Rightarrow> World \<Rightarrow> World" where
  "state_update f w = w\<lparr>state := f (state w)\<rparr>"

definition perform :: "Effect list \<Rightarrow> World \<Rightarrow> World" where
  "perform es w = w\<lparr>effects := effects w @ es\<rparr>"

definition addGlobalListener :: "GlobalHandler \<Rightarrow> World \<Rightarrow> World" where
  "addGlobalListener h w = w\<lparr>globalListeners := insert h (globalListeners w)\<rparr>"

definition removeAllGlobalListeners :: "World \<Rightarrow> World" where
  "removeAllGlobalListeners w = w\<lparr>globalListeners := {}\<rparr>"

definition shouldStopPropagation :: "Env \<Rightarrow> PressEvent \<Rightarrow> bool" where
  "shouldStopPropagation env event = (\<not> continues env event)"

subsection \<open>The lifecycle triggers\<close>

definition triggerPressStart ::
  "Env \<Rightarrow> 'a EventBase_scheme \<Rightarrow> PointerType \<Rightarrow> World \<Rightarrow> bool \<times> World" where
  "triggerPressStart env originalEvent pt w =
     (if isDisabled (opts env) \<or> didFirePressStart (state w) then (False, w)
      else
        let w1 = state_update (\<lambda>cur. cur\<lparr>isTriggeringEvent := True\<rparr>) w;
            event = new_PressEvent pressstart pt originalEvent;
            w2 = perform [Callback event, DispatchEvent event] w1;
            w3 = perform [PressChange True] w2;
            w4 = state_update
                   (\<lambda>cur. cur\<lparr>isTriggeringEvent := False, didFirePressStart := True\<rparr>) w3;
            w5 = w4\<lparr>isPressedStore := True\<rparr>
        in (shouldStopPropagation env event, w5))"

definition triggerPressEnd ::
  "Env \<Rightarrow> 'a EventBase_scheme \<Rightarrow> PointerType \<Rightarrow> bool \<Rightarrow> World \<Rightarrow> bool \<times> World" where
  "triggerPressEnd env originalEvent pt wasPressed w =
     (if didFirePressStart (state w) then
        let w1 = state_update
                   (\<lambda>cur. cur\<lparr>ignoreClickAfterPress := True, didFirePressStart := False,
                                isTriggeringEvent := True\<rparr>) w;
            event = new_PressEvent pressend pt originalEvent;
            w2 = perform [Callback event, DispatchEvent event] w1;
            w3 = perform [PressChange False] w2;
            w4 = w3\<lparr>isPressedStore := False\<rparr>;
            event2 = new_PressEvent press pt originalEvent;
            firePress = (wasPressed \<and> \<not> isDisabled (opts env));
            w5 = (if firePress then perform [Callback event2, DispatchEvent event2] w4 else w4);
            stop = (if firePress
                    then (shouldStopPropagation env event \<and> shouldStopPropagation env event2)
                    else shouldStopPropagation env event);
            w6 = state_update (\<lambda>cur. cur\<lparr>isTriggeringEvent := False\<rparr>) w5
        in (stop, w6)
      else (False, w))"

definition triggerPressUp ::
  "Env \<Rightarrow> 'a EventBase_scheme \<Rightarrow> PointerType \<Rightarrow> World \<Rightarrow> bool \<times> World" where
  "triggerPressUp env originalEvent pt w =
     (if isDisabled (opts env) then (False, w)
      else
        let w1 = state_update (\<lambda>cur. cur\<lparr>isTriggeringEvent := True\<rparr>) w;
            event = new_PressEvent pressup pt originalEvent;
            w2 = perform [Callback event, DispatchEvent event] w1;
            w3 = state_update (\<lambda>cur. cur\<lparr>isTriggeringEvent := False\<rparr>) w2
        in (shouldStopPropagation env event, w3))"

subsection \<open>Hit testing\<close>

definition getPointClientRect :: "EventPoint \<Rightarrow> Rect" where
  "getPointClientRect point =
     (let offsetX = (case width point of Some wd \<Rightarrow> wd / 2
                     | None \<Rightarrow> (case radiusX point of Some r \<Rightarrow> r | None \<Rightarrow> 0));
          offsetY = (case height point of Some h \<Rightarrow> h / 2
                     | None \<Rightarrow> (case radiusY point of Some r \<Rightarrow> r | None \<Rightarrow> 0))
      in \<lparr>top = clientY point - offsetY, right = clientX point + offsetX,
          bottom = clientY point + offsetY, left = clientX point - offsetX\<rparr>)"

definition areRectanglesOverlapping :: "Rect \<Rightarrow> Rect \<Rightarrow> bool" where
  "areRectanglesOverlapping a b =
     (if left a > right b then False
      else if left b > right a then False
      else if top a > bottom b then False
      else if top b > bottom a then False
      else True)"

definition isOverTarget_fn :: "EventPoint \<Rightarrow> Element \<Rightarrow> bool" where
  "isOverTarget_fn point tgt =
     (let rect = boundingClientRect tgt;
          pointRect = getPointClientRect point
      in areRectanglesOverlapping rect pointRect)"

subsection \<open>Keyboard validity and default prevention\<close>

definition isHTMLElement :: "Element \<Rightarrow> bool" where
  "isHTMLElement el =
     (elementClass el \<in> {HTMLInputElement, HTMLTextAreaElement, HTMLButtonElement,
                          HTMLAnchorElement, HTMLOtherElement})"

definition isHTMLorSVGElement :: "Element \<Rightarrow> bool" where
  "isHTMLorSVGElement el = (isHTMLElement el \<or> elementClass el = SVGElement)"

definition nonTextInputTypes :: "string set" where
  "nonTextInputTypes =
     {''checkbox'', ''radio'', ''range'', ''color'', ''file'', ''image'', ''button'',
      ''submit'', ''reset''}"

definition isValidInputKey :: "Element \<Rightarrow> string \<Rightarrow> bool" where
  "isValidInputKey tgt k =
     (if inputType tgt = ''checkbox'' \<or> inputType tgt = ''radio'' then k = '' ''
      else inputType tgt \<in> nonTextInputTypes)"

definition isHTMLAnchorLink :: "Element \<Rightarrow> bool" where
  "isHTMLAnchorLink tgt = (tagName tgt = ''A'' \<and> hasHref tgt)"

text \<open>\<^verbatim>\<open>!role\<close> for the result of \<^verbatim>\<open>getAttribute('role')\<close>: \<^verbatim>\<open>null\<close> or the empty string.\<close>

definition falsy :: "string option \<Rightarrow> bool" where
  "falsy r = (case r of None \<Rightarrow> True | Some s \<Rightarrow> s = [])"

definition isValidKeyboardEvent :: "KeyboardEvent \<Rightarrow> Element \<Rightarrow> bool" where
  "isValidKeyboardEvent event element =
     ((key event = ''Enter'' \<or> key event = '' '' \<or> key event = ''Spacebar''
         \<or> code event = ''Space'')
      \<and> \<not> ((elementClass element = HTMLInputElement
               \<and> \<not> isValidInputKey element (key event))
             \<or> elementClass element = HTMLTextAreaElement
             \<or> isContentEditable element)
      \<and> \<not> ((role element = Some ''link''
               \<or> (falsy (role element) \<and> isHTMLAnchorLink element))
             \<and> key event \<noteq> ''Enter''))"

definition shouldPreventDefault :: "Element \<Rightarrow> bool" where
  "shouldPreventDefault tgt = (\<not> isHTMLElement tgt \<or> \<not> hasDraggable tgt)"

definition shouldPreventDefaultKeyboard :: "Element \<Rightarrow> string \<Rightarrow> bool" where
  "shouldPreventDefaultKeyboard tgt k =
     (if elementClass tgt = HTMLInputElement then \<not> isValidInputKey tgt k
      else if elementClass tgt = HTMLButtonElement
      then (inputType tgt \<noteq> ''submit'' \<and> inputType tgt \<noteq> ''reset'')
      else if isHTMLAnchorLink tgt then False
      else True)"

subsection \<open>Touches and the map of recorded key events\<close>

definition getTouchFromEvent :: "TouchEvent \<Rightarrow> TouchPoint option" where
  "getTouchFromEvent event =
     (case targetTouches event of [] \<Rightarrow> None | t # _ \<Rightarrow> Some t)"

definition getTouchById :: "TouchEvent \<Rightarrow> int option \<Rightarrow> TouchPoint option" where
  "getTouchById event pid =
     List.find (\<lambda>touch. Some (touchIdentifier touch) = pid) (changedTouches event)"

definition Map_set :: "'k \<Rightarrow> 'v \<Rightarrow> ('k \<times> 'v) list \<Rightarrow> ('k \<times> 'v) list" where
  "Map_set k v m =
     (if k \<in> fst ` set m then map (\<lambda>(k', v'). if k' = k then (k', v) else (k', v')) m
      else m @ [(k, v)])"

definition Map_delete :: "'k \<Rightarrow> ('k \<times> 'v) list \<Rightarrow> ('k \<times> 'v) list" where
  "Map_delete k m = filter (\<lambda>(k', v'). k' \<noteq> k) m"

subsection \<open>Cancelling\<close>

definition clearPress :: "PressState \<Rightarrow> PressState" where
  "clearPress cur =
     cur\<lparr>isPressed := False, isOverTarget := False, activePointerId := None,
          pointerType := None\<rparr>"

definition cancel :: "Env \<Rightarrow> 'a EventBase_scheme \<Rightarrow> World \<Rightarrow> World" where
  "cancel env e w =
     (let s = state w in
      case target s of
        None \<Rightarrow> w
      | Some tgt \<Rightarrow>
          if isPressed s then
            let w1 = (case pointerType s of
                        None \<Rightarrow> w
                      | Some pt \<Rightarrow>
                          if isOverTarget s
                          then snd (triggerPressEnd env (createEvent tgt e) pt False w)
                          else w);
                w2 = state_update clearPress w1;
                w3 = removeAllGlobalListeners w2
            in if allowTextSelectionOnPress (opts env) then w3
               else perform [RestoreTextSelection tgt] w3
          else w)"

definition cancelOnPointerExit :: "Env \<Rightarrow> 'a EventBase_scheme \<Rightarrow> World \<Rightarrow> World" where
  "cancelOnPointerExit env e w =
     (if shouldCancelOnPointerExit (opts env) then cancel env e w else w)"

definition stopIf :: "bool \<Rightarrow> World \<Rightarrow> World" where
  "stopIf shouldStop w = (if shouldStop then perform [StopPropagation] w else w)"

definition focusOnPress :: "Env \<Rightarrow> Element \<Rightarrow> World \<Rightarrow> World" where
  "focusOnPress env el w =
     (if \<not> isDisabled (opts env) \<and> \<not> preventFocusOnPress (opts env)
      then perform [Focus el] w else w)"

subsection \<open>Keyboard and click handlers\<close>

definition base_onKeyUp :: "Env \<Rightarrow> KeyboardEvent \<Rightarrow> World \<Rightarrow> World" where
  "base_onKeyUp env e w =
     (case currentTarget e of
        None \<Rightarrow> w
      | Some ct \<Rightarrow>
          if \<not> isHTMLorSVGElement ct then w
          else
            let s = state w in
            case target s of
              None \<Rightarrow> w
            | Some tgt \<Rightarrow>
                if isValidKeyboardEvent e ct \<and> \<not> repeat e \<and> targetInside e
                then snd (triggerPressUp env (createEvent tgt e) Keyboard w)
                else w)"

text \<open>
  \<open>onKeyUp\<close> is the listener the engine registers on the document when a keyboard press
  starts. Its first branch, the release of a key that ends the press:
\<close>

definition endKeyboardPress :: "Env \<Rightarrow> KeyboardEvent \<Rightarrow> Element \<Rightarrow> World \<Rightarrow> World" where
  "endKeyboardPress env e tgt w =
     (let s = state w;
          w1 = (if shouldPreventDefaultKeyboard (eventTarget e) (key e)
                then perform [PreventDefault] w else w);
          (shouldStop, w2) =
            triggerPressEnd env (createEvent tgt e) Keyboard (targetInside e) w1;
          w3 = removeAllGlobalListeners w2;
          w4 = stopIf shouldStop w3;
          w5 = (if key e \<noteq> ''Enter'' \<and> isHTMLAnchorLink tgt \<and> targetInside e
                   \<and> \<not> linkClicked e
                then perform [OpenLink tgt] w4 else w4)
      in state_update
           (\<lambda>cur. cur\<lparr>isPressed := False,
                       metaKeyEvents := map_option (Map_delete (key e)) (metaKeyEvents s)\<rparr>)
           w5)"

text \<open>
  Its second branch, the release of Meta, dispatches a keyup for every recorded keydown
  on the recorded target: \<^verbatim>\<open>$state.target?.dispatchEvent(new KeyboardEvent('keyup', event))\<close>.
  The new event takes its key, code, repeat flag and modifiers from the recorded event;
  its target is the element it is dispatched on, which contains itself, and it does not
  carry the link marker. \<^verbatim>\<open>dispatchEvent\<close> is synchronous and the recorded target is the
  bound element, so the event runs the engine's own keyup handler on the element and
  then, as it bubbles, the document listener, which is \<open>onKeyUp\<close> again, if it is still
  registered. The dispatch is logged as \<open>DispatchKeyUp\<close> before the listeners run.
\<close>

definition syntheticKeyUp :: "Element \<Rightarrow> KeyboardEvent \<Rightarrow> KeyboardEvent" where
  "syntheticKeyUp tgt event =
     event\<lparr>currentTarget := Some tgt, targetInside := True, eventTarget := tgt,
           linkClicked := False\<rparr>"

definition dispatchKeyUp ::
  "(Env \<Rightarrow> KeyboardEvent \<Rightarrow> World \<Rightarrow> World option) \<Rightarrow> Env \<Rightarrow> Element \<Rightarrow> KeyboardEvent
     \<Rightarrow> World \<Rightarrow> World option" where
  "dispatchKeyUp documentListener env tgt event w =
     (let ev = syntheticKeyUp tgt event;
          w1 = perform [DispatchKeyUp tgt event] w;
          w2 = base_onKeyUp env ev w1
      in if H_onKeyUp \<in> globalListeners w2 then documentListener env ev w2 else Some w2)"

text \<open>The loop \<^verbatim>\<open>for (const event of events.values())\<close>.\<close>

primrec dispatchEach ::
  "(KeyboardEvent \<Rightarrow> World \<Rightarrow> World option) \<Rightarrow> KeyboardEvent list \<Rightarrow> World \<Rightarrow> World option"
  where
  "dispatchEach f [] w = Some w"
| "dispatchEach f (event # events) w =
     (case f event w of None \<Rightarrow> None | Some w' \<Rightarrow> dispatchEach f events w')"

text \<open>
  The handler calls itself through the dispatch, so it is defined with a bound on the
  depth of the calls; \<open>None\<close> means that the bound was reached. Two levels are always
  enough (lemma \<open>onKeyUp_fuel_enough\<close>): the record of keys is dropped before the loop.
\<close>

primrec onKeyUp_fuel :: "nat \<Rightarrow> Env \<Rightarrow> KeyboardEvent \<Rightarrow> World \<Rightarrow> World option" where
  "onKeyUp_fuel 0 = (\<lambda>env e w. None)"
| "onKeyUp_fuel (Suc n) =
     (\<lambda>env e w.
        let s = state w;
            otherwise =
              (if key e = ''Meta'' then
                 (case metaKeyEvents s of
                    None \<Rightarrow> Some w
                  | Some events \<Rightarrow>
                      if events = [] then Some w
                      else
                        let w1 = state_update (\<lambda>cur. cur\<lparr>metaKeyEvents := None\<rparr>) w
                        in (case target s of
                              None \<Rightarrow> Some w1
                            | Some tgt \<Rightarrow>
                                dispatchEach (dispatchKeyUp (onKeyUp_fuel n) env tgt)
                                  (map snd events) w1))
               else Some w)
        in case target s of
             None \<Rightarrow> otherwise
           | Some tgt \<Rightarrow>
               if isPressed s \<and> isValidKeyboardEvent e tgt
               then Some (endKeyboardPress env e tgt w)
               else otherwise)"

definition onKeyUp :: "Env \<Rightarrow> KeyboardEvent \<Rightarrow> World \<Rightarrow> World" where
  "onKeyUp env e w = (case onKeyUp_fuel 2 env e w of Some w' \<Rightarrow> w' | None \<Rightarrow> w)"

definition base_onKeyDown :: "Env \<Rightarrow> KeyboardEvent \<Rightarrow> World \<Rightarrow> World" where
  "base_onKeyDown env e w =
     (case currentTarget e of
        None \<Rightarrow> w
      | Some ct \<Rightarrow>
          if \<not> isHTMLorSVGElement ct then w
          else if isValidKeyboardEvent e ct \<and> targetInside e then
            let w1 = (if shouldPreventDefaultKeyboard (eventTarget e) (key e)
                      then perform [PreventDefault] w else w);
                s = state w1;
                (shouldStop, w2) =
                  (if \<not> isPressed s \<and> \<not> repeat e then
                     let wa = state_update
                                (\<lambda>cur. cur\<lparr>target := Some ct, isPressed := True\<rparr>) w1;
                         (b, wb) = triggerPressStart env e Keyboard wa
                     in (b, addGlobalListener H_onKeyUp wb)
                   else (True, w1));
                w3 = stopIf shouldStop w2
            in if metaKey e \<and> isMac env then
                 state_update
                   (\<lambda>cur. cur\<lparr>metaKeyEvents :=
                                  map_option (Map_set (key e) e) (metaKeyEvents s)\<rparr>) w3
               else w3
          else if key e = ''Meta'' then
            state_update (\<lambda>cur. cur\<lparr>metaKeyEvents := Some []\<rparr>) w
          else w)"

definition base_onClick :: "Env \<Rightarrow> MouseEvent \<Rightarrow> World \<Rightarrow> World" where
  "base_onClick env e w =
     (let s = state w in
      case currentTarget e of
        None \<Rightarrow> w
      | Some ct \<Rightarrow>
          if \<not> isHTMLorSVGElement ct then w
          else if \<not> targetInside e then w
          else if button e = 0 \<and> \<not> isTriggeringEvent s \<and> isOpening env then
            let w1 = (if isDisabled (opts env) then perform [PreventDefault] w else w);
                (shouldStop, w2) =
                  (if \<not> ignoreClickAfterPress s \<and> \<not> ignoreEmulatedMouseEvents s
                      \<and> \<not> isPressed s
                      \<and> (pointerType s = Some Virtual \<or> virtualClick e)
                   then
                     let wf = focusOnPress env ct w1;
                         (stopPressStart, wa) = triggerPressStart env e Virtual wf;
                         (stopPressUp, wb) = triggerPressUp env e Virtual wa;
                         (stopPressEnd, wc) = triggerPressEnd env e Virtual True wb
                     in (stopPressStart \<and> stopPressUp \<and> stopPressEnd, wc)
                   else (True, w1));
                w3 = state_update
                       (\<lambda>cur. cur\<lparr>ignoreEmulatedMouseEvents := False,
                                   ignoreClickAfterPress := False\<rparr>) w2
            in stopIf shouldStop w3
          else w)"

subsection \<open>Pointer handlers\<close>

definition onPointerUp :: "Env \<Rightarrow> PointerEvent \<Rightarrow> World \<Rightarrow> World" where
  "onPointerUp env e w =
     (let s = state w in
      case target s of
        None \<Rightarrow> w
      | Some tgt \<Rightarrow>
          if Some (pointerId e) = activePointerId s \<and> isPressed s \<and> pointerButton e = 0
          then
            let w1 = (case pointerType s of
                        None \<Rightarrow> w
                      | Some pt \<Rightarrow>
                          if isOverTarget_fn (pointerPoint e) tgt
                          then snd (triggerPressEnd env (createEvent tgt e) pt True w)
                          else if isOverTarget s
                          then snd (triggerPressEnd env (createEvent tgt e) pt False w)
                          else w);
                w2 = state_update clearPress w1;
                w3 = removeAllGlobalListeners w2
            in if allowTextSelectionOnPress (opts env) then w3
               else perform [RestoreTextSelection tgt] w3
          else w)"

definition onPointerMove :: "Env \<Rightarrow> PointerEvent \<Rightarrow> World \<Rightarrow> World" where
  "onPointerMove env e w =
     (let s = state w in
      if Some (pointerId e) \<noteq> activePointerId s then w
      else
        case target s of
          None \<Rightarrow> w
        | Some tgt \<Rightarrow>
            if isOverTarget_fn (pointerPoint e) tgt then
              (case pointerType s of
                 None \<Rightarrow> w
               | Some pt \<Rightarrow>
                   if \<not> isOverTarget s then
                     let w1 = state_update (\<lambda>cur. cur\<lparr>isOverTarget := True\<rparr>) w
                     in snd (triggerPressStart env (createEvent tgt e) pt w1)
                   else w)
            else
              (case pointerType s of
                 None \<Rightarrow> w
               | Some pt \<Rightarrow>
                   if isOverTarget s then
                     let w1 = state_update (\<lambda>cur. cur\<lparr>isOverTarget := False\<rparr>) w;
                         w2 = snd (triggerPressEnd env (createEvent tgt e) pt False w1)
                     in cancelOnPointerExit env e w2
                   else w))"

definition onPointerCancel :: "Env \<Rightarrow> PointerEvent \<Rightarrow> World \<Rightarrow> World" where
  "onPointerCancel env e w = cancel env e w"

definition pointer_onPointerDown :: "Env \<Rightarrow> PointerEvent \<Rightarrow> World \<Rightarrow> World" where
  "pointer_onPointerDown env e w =
     (case currentTarget e of
        None \<Rightarrow> w
      | Some ct \<Rightarrow>
          if \<not> isHTMLorSVGElement ct then w
          else if pointerButton e \<noteq> 0 \<or> \<not> targetInside e then w
          else
            let s = state w in
            if virtualPointerEvent e then
              state_update (\<lambda>cur. cur\<lparr>pointerType := Some Virtual\<rparr>) w
            else
              let w1 = state_update
                         (\<lambda>cur. cur\<lparr>pointerType := Some (eventPointerType e)\<rparr>) w;
                  (shouldStop, w2) =
                    (if \<not> isPressed s then
                       let wa = state_update
                                  (\<lambda>cur. cur\<lparr>isPressed := True, isOverTarget := True,
                                              activePointerId := Some (pointerId e),
                                              target := Some ct\<rparr>) w1;
                           wb = focusOnPress env ct wa;
                           wc = (if \<not> allowTextSelectionOnPress (opts env)
                                 then perform [DisableTextSelection ct] wb else wb);
                           (b, wd) = triggerPressStart env e (eventPointerType e) wc
                       in (b, addGlobalListener H_onPointerCancel
                                (addGlobalListener H_onPointerUp
                                   (addGlobalListener H_onPointerMove wd)))
                     else (True, w1))
              in stopIf shouldStop w2)"

definition pointer_onMouseDown :: "Env \<Rightarrow> MouseEvent \<Rightarrow> World \<Rightarrow> World" where
  "pointer_onMouseDown env e w =
     (case currentTarget e of
        None \<Rightarrow> w
      | Some ct \<Rightarrow>
          if \<not> isHTMLorSVGElement ct then w
          else if \<not> targetInside e then w
          else if button e = 0 then
            let w1 = (if shouldPreventDefault ct then perform [PreventDefault] w else w)
            in perform [StopPropagation] w1
          else w)"

definition pointer_onPointerUp :: "Env \<Rightarrow> PointerEvent \<Rightarrow> World \<Rightarrow> World" where
  "pointer_onPointerUp env e w =
     (case currentTarget e of
        None \<Rightarrow> w
      | Some ct \<Rightarrow>
          if \<not> isHTMLorSVGElement ct then w
          else
            let s = state w in
            if \<not> targetInside e \<or> pointerType s = Some Virtual then w
            else if pointerButton e = 0 \<and> isOverTarget_fn (pointerPoint e) ct then
              snd (triggerPressUp env e
                     (case pointerType s of Some pt \<Rightarrow> pt | None \<Rightarrow> eventPointerType e) w)
            else w)"

subsection \<open>Mouse and touch handlers (no pointer events)\<close>

definition onMouseUp :: "Env \<Rightarrow> MouseEvent \<Rightarrow> World \<Rightarrow> World" where
  "onMouseUp env e w =
     (if button e \<noteq> 0 then w
      else
        let s = state w;
            w1 = state_update (\<lambda>cur. cur\<lparr>isPressed := False\<rparr>) w;
            w2 = removeAllGlobalListeners w1
        in if ignoreEmulatedMouseEvents s then
             state_update (\<lambda>cur. cur\<lparr>ignoreEmulatedMouseEvents := False\<rparr>) w2
           else
             let w3 = (case target s of
                         None \<Rightarrow> w2
                       | Some tgt \<Rightarrow>
                           (case pointerType s of
                              None \<Rightarrow> w2
                            | Some pt \<Rightarrow>
                                if isOverTarget_fn (mousePoint e) tgt
                                then snd (triggerPressEnd env (createEvent tgt e) pt True w2)
                                else if isOverTarget s
                                then snd (triggerPressEnd env (createEvent tgt e) pt False w2)
                                else w2))
             in state_update (\<lambda>cur. cur\<lparr>isOverTarget := False\<rparr>) w3)"

definition onScroll :: "Env \<Rightarrow> ScrollEvent \<Rightarrow> World \<Rightarrow> World" where
  "onScroll env e w =
     (let s = state w in
      if isPressed s \<and> target s \<noteq> None \<and> scrollTargetContainsTarget e then
        cancel env
          \<lparr>currentTarget = target s, shiftKey = False, ctrlKey = False, metaKey = False,
           altKey = False\<rparr> w
      else w)"

definition nonpointer_onMouseDown :: "Env \<Rightarrow> MouseEvent \<Rightarrow> World \<Rightarrow> World" where
  "nonpointer_onMouseDown env e w =
     (let s = state w in
      case currentTarget e of
        None \<Rightarrow> w
      | Some ct \<Rightarrow>
          if \<not> isHTMLorSVGElement ct then w
          else if button e \<noteq> 0 \<or> \<not> targetInside e then w
          else
            let w1 = (if shouldPreventDefault ct then perform [PreventDefault] w else w)
            in if ignoreEmulatedMouseEvents s then perform [StopPropagation] w1
               else
                 let pt = (if virtualClick e then Virtual else Mouse);
                     w2 = state_update
                            (\<lambda>cur. cur\<lparr>isPressed := True, isOverTarget := True,
                                        target := Some ct, pointerType := Some pt\<rparr>) w1;
                     w3 = focusOnPress env ct w2;
                     (shouldStop, w4) = triggerPressStart env e pt w3;
                     w5 = stopIf shouldStop w4
                 in addGlobalListener H_onMouseUp w5)"

definition nonpointer_onMouseEnter :: "Env \<Rightarrow> MouseEvent \<Rightarrow> World \<Rightarrow> World" where
  "nonpointer_onMouseEnter env e w =
     (case currentTarget e of
        None \<Rightarrow> w
      | Some ct \<Rightarrow>
          if \<not> isHTMLorSVGElement ct then w
          else if \<not> targetInside e then w
          else
            let s = state w;
                (shouldStop, w1) =
                  (case pointerType s of
                     None \<Rightarrow> (True, w)
                   | Some pt \<Rightarrow>
                       if isPressed s \<and> \<not> ignoreEmulatedMouseEvents s then
                         triggerPressStart env e pt
                           (state_update (\<lambda>cur. cur\<lparr>isOverTarget := True\<rparr>) w)
                       else (True, w))
            in stopIf shouldStop w1)"

definition nonpointer_onMouseLeave :: "Env \<Rightarrow> MouseEvent \<Rightarrow> World \<Rightarrow> World" where
  "nonpointer_onMouseLeave env e w =
     (case currentTarget e of
        None \<Rightarrow> w
      | Some ct \<Rightarrow>
          if \<not> isHTMLorSVGElement ct then w
          else if \<not> targetInside e then w
          else
            let s = state w;
                (shouldStop, w1) =
                  (case pointerType s of
                     None \<Rightarrow> (True, w)
                   | Some pt \<Rightarrow>
                       if isPressed s \<and> \<not> ignoreEmulatedMouseEvents s then
                         let (b, wa) =
                               triggerPressEnd env e pt False
                                 (state_update (\<lambda>cur. cur\<lparr>isOverTarget := False\<rparr>) w)
                         in (b, cancelOnPointerExit env e wa)
                       else (True, w))
            in stopIf shouldStop w1)"

definition nonpointer_onMouseUp :: "Env \<Rightarrow> MouseEvent \<Rightarrow> World \<Rightarrow> World" where
  "nonpointer_onMouseUp env e w =
     (case currentTarget e of
        None \<Rightarrow> w
      | Some ct \<Rightarrow>
          if \<not> isHTMLorSVGElement ct then w
          else if \<not> targetInside e then w
          else
            let s = state w in
            if \<not> ignoreEmulatedMouseEvents s \<and> button e = 0 then
              snd (triggerPressUp env e
                     (case pointerType s of Some pt \<Rightarrow> pt | None \<Rightarrow> Mouse) w)
            else w)"

definition nonpointer_onTouchStart :: "Env \<Rightarrow> TouchEvent \<Rightarrow> World \<Rightarrow> World" where
  "nonpointer_onTouchStart env e w =
     (case currentTarget e of
        None \<Rightarrow> w
      | Some ct \<Rightarrow>
          if \<not> isHTMLorSVGElement ct then w
          else if \<not> targetInside e then w
          else
            case getTouchFromEvent e of
              None \<Rightarrow> w
            | Some touch \<Rightarrow>
                let w1 = state_update
                           (\<lambda>cur. cur\<lparr>activePointerId := Some (touchIdentifier touch),
                                       ignoreEmulatedMouseEvents := True,
                                       isOverTarget := True, isPressed := True,
                                       target := Some ct, pointerType := Some Touch\<rparr>) w;
                    w2 = focusOnPress env ct w1;
                    w3 = (if \<not> allowTextSelectionOnPress (opts env)
                          then perform [DisableTextSelection ct] w2 else w2);
                    (shouldStop, w4) = triggerPressStart env e Touch w3;
                    w5 = stopIf shouldStop w4
                in addGlobalListener H_onScroll w5)"

definition nonpointer_onTouchMove :: "Env \<Rightarrow> TouchEvent \<Rightarrow> World \<Rightarrow> World" where
  "nonpointer_onTouchMove env e w =
     (case currentTarget e of
        None \<Rightarrow> w
      | Some ct \<Rightarrow>
          if \<not> isHTMLorSVGElement ct then w
          else if \<not> targetInside e then w
          else
            let s = state w in
            if \<not> isPressed s then perform [StopPropagation] w
            else
              let touchOver =
                    (case getTouchById e (activePointerId s) of
                       None \<Rightarrow> False
                     | Some touch \<Rightarrow> isOverTarget_fn (touchPoint touch) ct);
                  (shouldStop, w1) =
                    (case pointerType s of
                       None \<Rightarrow> (True, w)
                     | Some pt \<Rightarrow>
                         if touchOver then
                           (if \<not> isOverTarget s then
                              triggerPressStart env e pt
                                (state_update (\<lambda>cur. cur\<lparr>isOverTarget := True\<rparr>) w)
                            else (True, w))
                         else if isOverTarget s then
                           let (b, wa) =
                                 triggerPressEnd env e pt False
                                   (state_update (\<lambda>cur. cur\<lparr>isOverTarget := False\<rparr>) w)
                           in (b, cancelOnPointerExit env e wa)
                         else (True, w))
              in stopIf shouldStop w1)"

definition nonpointer_onTouchEnd :: "Env \<Rightarrow> TouchEvent \<Rightarrow> World \<Rightarrow> World" where
  "nonpointer_onTouchEnd env e w =
     (case currentTarget e of
        None \<Rightarrow> w
      | Some ct \<Rightarrow>
          if \<not> isHTMLorSVGElement ct then w
          else if \<not> targetInside e then w
          else
            let s = state w in
            if \<not> isPressed s then perform [StopPropagation] w
            else
              let touchOver =
                    (case getTouchById e (activePointerId s) of
                       None \<Rightarrow> False
                     | Some touch \<Rightarrow> isOverTarget_fn (touchPoint touch) ct);
                  (shouldStop, w1) =
                    (case pointerType s of
                       None \<Rightarrow> (True, w)
                     | Some pt \<Rightarrow>
                         if touchOver then
                           triggerPressEnd env e pt True (snd (triggerPressUp env e pt w))
                         else if isOverTarget s then triggerPressEnd env e pt False w
                         else (True, w));
                  w2 = stopIf shouldStop w1;
                  w3 = state_update
                         (\<lambda>cur. cur\<lparr>isPressed := False, activePointerId := None,
                                     isOverTarget := False,
                                     ignoreEmulatedMouseEvents := True\<rparr>) w2;
                  w4 = (case target s of
                          None \<Rightarrow> w3
                        | Some tgt \<Rightarrow>
                            if \<not> allowTextSelectionOnPress (opts env)
                            then perform [RestoreTextSelection tgt] w3 else w3)
              in removeAllGlobalListeners w4)"

definition nonpointer_onTouchCancel :: "Env \<Rightarrow> TouchEvent \<Rightarrow> World \<Rightarrow> World" where
  "nonpointer_onTouchCancel env e w =
     (case currentTarget e of
        None \<Rightarrow> w
      | Some ct \<Rightarrow>
          if \<not> isHTMLorSVGElement ct then w
          else if \<not> targetInside e then w
          else
            let w1 = perform [StopPropagation] w;
                s = state w1
            in if isPressed s then cancel env e w1 else w1)"

definition nonpointer_onDragStart :: "Env \<Rightarrow> MouseEvent \<Rightarrow> World \<Rightarrow> World" where
  "nonpointer_onDragStart env e w =
     (case currentTarget e of
        None \<Rightarrow> w
      | Some ct \<Rightarrow>
          if \<not> isHTMLorSVGElement ct then w
          else if \<not> targetInside e then w
          else cancel env e w)"

subsection \<open>Delivery of native events\<close>

text \<open>
  \<^verbatim>\<open>pressAction\<close> attaches the keyboard and click handlers always, and either the
  pointer handlers or the mouse and touch handlers, depending on
  \<^verbatim>\<open>typeof PointerEvent\<close>. A document or window event reaches its handler only while
  that handler is in the registry of global listeners.
\<close>

datatype Event =
  KeyDown KeyboardEvent
  | KeyUp KeyboardEvent
  | Click MouseEvent
  | PointerDown PointerEvent
  | PointerUp PointerEvent
  | MouseDown MouseEvent
  | MouseEnter MouseEvent
  | MouseLeave MouseEvent
  | MouseUp MouseEvent
  | TouchStart TouchEvent
  | TouchMove TouchEvent
  | TouchEnd TouchEvent
  | TouchCancel TouchEvent
  | DragStart MouseEvent
  | DocumentKeyUp KeyboardEvent
  | DocumentPointerMove PointerEvent
  | DocumentPointerUp PointerEvent
  | DocumentPointerCancel PointerEvent
  | DocumentMouseUp MouseEvent
  | WindowScroll ScrollEvent

definition whenListening :: "GlobalHandler \<Rightarrow> (World \<Rightarrow> World) \<Rightarrow> World \<Rightarrow> World" where
  "whenListening h f w = (if h \<in> globalListeners w then f w else w)"

fun step :: "Env \<Rightarrow> Event \<Rightarrow> World \<Rightarrow> World" where
  "step env (KeyDown e) w = base_onKeyDown env e w"
| "step env (KeyUp e) w = base_onKeyUp env e w"
| "step env (Click e) w = base_onClick env e w"
| "step env (PointerDown e) w =
     (if pointerEventsSupported env then pointer_onPointerDown env e w else w)"
| "step env (PointerUp e) w =
     (if pointerEventsSupported env then pointer_onPointerUp env e w else w)"
| "step env (MouseDown e) w =
     (if pointerEventsSupported env then pointer_onMouseDown env e w
      else nonpointer_onMouseDown env e w)"
| "step env (MouseEnter e) w =
     (if pointerEventsSupported env then w else nonpointer_onMouseEnter env e w)"
| "step env (MouseLeave e) w =
     (if pointerEventsSupported env then w else nonpointer_onMouseLeave env e w)"
| "step env (MouseUp e) w =
     (if pointerEventsSupported env then w else nonpointer_onMouseUp env e w)"
| "step env (TouchStart e) w =
     (if pointerEventsSupported env then w else nonpointer_onTouchStart env e w)"
| "step env (TouchMove e) w =
     (if pointerEventsSupported env then w else nonpointer_onTouchMove env e w)"
| "step env (TouchEnd e) w =
     (if pointerEventsSupported env then w else nonpointer_onTouchEnd env e w)"
| "step env (TouchCancel e) w =
     (if pointerEventsSupported env then w else nonpointer_onTouchCancel env e w)"
| "step env (DragStart e) w =
     (if pointerEventsSupported env then w else nonpointer_onDragStart env e w)"
| "step env (DocumentKeyUp e) w = whenListening H_onKeyUp (onKeyUp env e) w"
| "step env (DocumentPointerMove e) w = whenListening H_onPointerMove (onPointerMove env e) w"
| "step env (DocumentPointerUp e) w = whenListening H_onPointerUp (onPointerUp env e) w"
| "step env (DocumentPointerCancel e) w =
     whenListening H_onPointerCancel (onPointerCancel env e) w"
| "step env (DocumentMouseUp e) w = whenListening H_onMouseUp (onMouseUp env e) w"
| "step env (WindowScroll e) w = whenListening H_onScroll (onScroll env e) w"

text \<open>
  A run delivers a sequence of events, each under the configuration and surroundings
  current at that moment.
\<close>

fun run :: "(Env \<times> Event) list \<Rightarrow> World \<Rightarrow> World" where
  "run [] w = w"
| "run ((env, ev) # rest) w = run rest (step env ev w)"

subsection \<open>The document keyup listener, unfolded\<close>

text \<open>
  The listener on a world with no record of keys, where its second branch is dead, and
  one round of the loop of the second branch. Lemma \<open>onKeyUp_unfold\<close> expresses
  \<open>onKeyUp\<close> by them.
\<close>

definition onKeyUp_once :: "Env \<Rightarrow> KeyboardEvent \<Rightarrow> World \<Rightarrow> World" where
  "onKeyUp_once env e w =
     (case target (state w) of
        None \<Rightarrow> w
      | Some tgt \<Rightarrow>
          if isPressed (state w) \<and> isValidKeyboardEvent e tgt
          then endKeyboardPress env e tgt w else w)"

definition replayKeyUp :: "Env \<Rightarrow> Element \<Rightarrow> KeyboardEvent \<Rightarrow> World \<Rightarrow> World" where
  "replayKeyUp env tgt event w =
     (let ev = syntheticKeyUp tgt event;
          w1 = perform [DispatchKeyUp tgt event] w;
          w2 = base_onKeyUp env ev w1
      in if H_onKeyUp \<in> globalListeners w2 then onKeyUp_once env ev w2 else w2)"

subsection \<open>Callbacks that call back into the engine\<close>

text \<open>
  A consumer callback, or a listener of a dispatched press event, may synchronously
  dispatch native events that reach the engine's own handlers. The definitions of this
  subsection are the triggers, \<open>cancel\<close> and the document pointermove handler once more,
  with what the callbacks of a press event do to the engine as a parameter \<open>callback\<close>,
  applied where the source invokes the callback. With a callback that does nothing they
  are the definitions above (lemma \<open>calling_nothing\<close>).
\<close>

definition triggerPressStart_calling ::
  "(PressEvent \<Rightarrow> World \<Rightarrow> World) \<Rightarrow> Env \<Rightarrow> 'a EventBase_scheme \<Rightarrow> PointerType \<Rightarrow> World
     \<Rightarrow> bool \<times> World" where
  "triggerPressStart_calling callback env originalEvent pt w =
     (if isDisabled (opts env) \<or> didFirePressStart (state w) then (False, w)
      else
        let w1 = state_update (\<lambda>cur. cur\<lparr>isTriggeringEvent := True\<rparr>) w;
            event = new_PressEvent pressstart pt originalEvent;
            w2 = perform [DispatchEvent event] (callback event (perform [Callback event] w1));
            w3 = perform [PressChange True] w2;
            w4 = state_update
                   (\<lambda>cur. cur\<lparr>isTriggeringEvent := False, didFirePressStart := True\<rparr>) w3;
            w5 = w4\<lparr>isPressedStore := True\<rparr>
        in (shouldStopPropagation env event, w5))"

definition triggerPressEnd_calling ::
  "(PressEvent \<Rightarrow> World \<Rightarrow> World) \<Rightarrow> Env \<Rightarrow> 'a EventBase_scheme \<Rightarrow> PointerType \<Rightarrow> bool
     \<Rightarrow> World \<Rightarrow> bool \<times> World" where
  "triggerPressEnd_calling callback env originalEvent pt wasPressed w =
     (if didFirePressStart (state w) then
        let w1 = state_update
                   (\<lambda>cur. cur\<lparr>ignoreClickAfterPress := True, didFirePressStart := False,
                                isTriggeringEvent := True\<rparr>) w;
            event = new_PressEvent pressend pt originalEvent;
            w2 = perform [DispatchEvent event] (callback event (perform [Callback event] w1));
            w3 = perform [PressChange False] w2;
            w4 = w3\<lparr>isPressedStore := False\<rparr>;
            event2 = new_PressEvent press pt originalEvent;
            firePress = (wasPressed \<and> \<not> isDisabled (opts env));
            w5 = (if firePress
                  then perform [DispatchEvent event2]
                         (callback event2 (perform [Callback event2] w4))
                  else w4);
            stop = (if firePress
                    then (shouldStopPropagation env event \<and> shouldStopPropagation env event2)
                    else shouldStopPropagation env event);
            w6 = state_update (\<lambda>cur. cur\<lparr>isTriggeringEvent := False\<rparr>) w5
        in (stop, w6)
      else (False, w))"

definition cancel_calling ::
  "(PressEvent \<Rightarrow> World \<Rightarrow> World) \<Rightarrow> Env \<Rightarrow> 'a EventBase_scheme \<Rightarrow> World \<Rightarrow> World" where
  "cancel_calling callback env e w =
     (let s = state w in
      case target s of
        None \<Rightarrow> w
      | Some tgt \<Rightarrow>
          if isPressed s then
            let w1 = (case pointerType s of
                        None \<Rightarrow> w
                      | Some pt \<Rightarrow>
                          if isOverTarget s
                          then snd (triggerPressEnd_calling callback env (createEvent tgt e)
                                      pt False w)
                          else w);
                w2 = state_update clearPress w1;
                w3 = removeAllGlobalListeners w2
            in if allowTextSelectionOnPress (opts env) then w3
               else perform [RestoreTextSelection tgt] w3
          else w)"

definition cancelOnPointerExit_calling ::
  "(PressEvent \<Rightarrow> World \<Rightarrow> World) \<Rightarrow> Env \<Rightarrow> 'a EventBase_scheme \<Rightarrow> World \<Rightarrow> World" where
  "cancelOnPointerExit_calling callback env e w =
     (if shouldCancelOnPointerExit (opts env) then cancel_calling callback env e w else w)"

definition onPointerMove_calling ::
  "(PressEvent \<Rightarrow> World \<Rightarrow> World) \<Rightarrow> Env \<Rightarrow> PointerEvent \<Rightarrow> World \<Rightarrow> World" where
  "onPointerMove_calling callback env e w =
     (let s = state w in
      if Some (pointerId e) \<noteq> activePointerId s then w
      else
        case target s of
          None \<Rightarrow> w
        | Some tgt \<Rightarrow>
            if isOverTarget_fn (pointerPoint e) tgt then
              (case pointerType s of
                 None \<Rightarrow> w
               | Some pt \<Rightarrow>
                   if \<not> isOverTarget s then
                     let w1 = state_update (\<lambda>cur. cur\<lparr>isOverTarget := True\<rparr>) w
                     in snd (triggerPressStart_calling callback env (createEvent tgt e) pt w1)
                   else w)
            else
              (case pointerType s of
                 None \<Rightarrow> w
               | Some pt \<Rightarrow>
                   if isOverTarget s then
                     let w1 = state_update (\<lambda>cur. cur\<lparr>isOverTarget := False\<rparr>) w;
                         w2 = snd (triggerPressEnd_calling callback env (createEvent tgt e)
                                     pt False w1)
                     in cancelOnPointerExit_calling callback env e w2
                   else w))"

subsection \<open>Observing a run\<close>

text \<open>The types of the custom events dispatched to the host element, in order.\<close>

definition dispatchedTypes :: "Effect list \<Rightarrow> PressEventType list" where
  "dispatchedTypes es =
     concat (map (\<lambda>x. case x of DispatchEvent ev \<Rightarrow> [ev_type ev] | _ \<Rightarrow> []) es)"

fun isDispatch :: "Effect \<Rightarrow> bool" where
  "isDispatch (DispatchEvent ev) = True"
| "isDispatch x = False"

fun isKeyDown :: "Event \<Rightarrow> bool" where
  "isKeyDown (KeyDown e) = True"
| "isKeyDown ev = False"

text \<open>A sequence of pointer moves arriving at the document, each under its own surroundings.\<close>

definition pointerMoves :: "(Env \<times> PointerEvent) list \<Rightarrow> (Env \<times> Event) list" where
  "pointerMoves ms = map (\<lambda>m. (fst m, DocumentPointerMove (snd m))) ms"

subsection \<open>Invariants\<close>

text \<open>The public store \<^verbatim>\<open>isPressed\<close> and the flag \<^verbatim>\<open>didFirePressStart\<close> agree.\<close>

definition storeAgrees :: "World \<Rightarrow> bool" where
  "storeAgrees w = (isPressedStore w = didFirePressStart (state w))"

text \<open>
  The public store is true exactly when one more \<open>pressstart\<close> than \<open>pressend\<close> has
  been dispatched.
\<close>

definition startsBalanced :: "World \<Rightarrow> bool" where
  "startsBalanced w =
     (count_list (dispatchedTypes (effects w)) pressstart
        = count_list (dispatchedTypes (effects w)) pressend
          + (if isPressedStore w then 1 else 0))"

definition tracked :: "bool \<Rightarrow> World \<Rightarrow> bool" where
  "tracked withLog w = (storeAgrees w \<and> (if withLog then startsBalanced w else True))"

text \<open>
  The state field \<^verbatim>\<open>isPressed\<close> is true only with a pointer type recorded, or during a
  keyboard press, while the document keyup listener is registered.
\<close>

definition pressedHasTypeOrKey :: "World \<Rightarrow> bool" where
  "pressedHasTypeOrKey w =
     (if isPressed (state w)
      then (pointerType (state w) \<noteq> None \<or> H_onKeyUp \<in> globalListeners w)
      else True)"

text \<open>The event is a keydown that starts a keyboard press in this world.\<close>

fun startsKeyboardPress :: "Event \<Rightarrow> World \<Rightarrow> bool" where
  "startsKeyboardPress (KeyDown e) w =
     (case currentTarget e of
        None \<Rightarrow> False
      | Some ct \<Rightarrow>
          isHTMLorSVGElement ct \<and> isValidKeyboardEvent e ct \<and> targetInside e
          \<and> \<not> isPressed (state w) \<and> \<not> repeat e)"
| "startsKeyboardPress ev w = False"

text \<open>The state field \<^verbatim>\<open>isPressed\<close> is true only with a pointer type recorded.\<close>

definition pressedHasType :: "World \<Rightarrow> bool" where
  "pressedHasType w = (if isPressed (state w) then pointerType (state w) \<noteq> None else True)"

subsection \<open>The specification's words for the hit test and the key check\<close>

definition inflateX :: "EventPoint \<Rightarrow> real" where
  "inflateX point =
     (if width point \<noteq> None then the (width point) / 2
      else if radiusX point \<noteq> None then the (radiusX point) else 0)"

definition inflateY :: "EventPoint \<Rightarrow> real" where
  "inflateY point =
     (if height point \<noteq> None then the (height point) / 2
      else if radiusY point \<noteq> None then the (radiusY point) else 0)"

definition derivedRect :: "EventPoint \<Rightarrow> Rect" where
  "derivedRect point =
     \<lparr>top = clientY point - inflateY point, right = clientX point + inflateX point,
      bottom = clientY point + inflateY point, left = clientX point - inflateX point\<rparr>"

definition strictlyLeftOf :: "Rect \<Rightarrow> Rect \<Rightarrow> bool" where
  "strictlyLeftOf a b = (right a < left b)"

definition strictlyAbove :: "Rect \<Rightarrow> Rect \<Rightarrow> bool" where
  "strictlyAbove a b = (bottom a < top b)"

definition overlapSpec :: "Rect \<Rightarrow> Rect \<Rightarrow> bool" where
  "overlapSpec a b =
     (\<not> (strictlyLeftOf a b \<or> strictlyLeftOf b a \<or> strictlyAbove a b \<or> strictlyAbove b a))"

definition isActivationKey :: "KeyboardEvent \<Rightarrow> bool" where
  "isActivationKey event =
     (key event \<in> {''Enter'', '' '', ''Spacebar''} \<or> code event = ''Space'')"

text \<open>
  The non-text-input check on the type of an input and the key: a checkbox and a radio
  button take the space key only; range, color, file, image, button, submit and reset
  inputs take any key; every other type is a text entry.
\<close>

definition nonTextInputCheck :: "string \<Rightarrow> string \<Rightarrow> bool" where
  "nonTextInputCheck ty k =
     ((ty = ''checkbox'' \<and> k = '' '') \<or> (ty = ''radio'' \<and> k = '' '')
      \<or> ty = ''range'' \<or> ty = ''color'' \<or> ty = ''file'' \<or> ty = ''image''
      \<or> ty = ''button'' \<or> ty = ''submit'' \<or> ty = ''reset'')"

definition textEntryCapable :: "Element \<Rightarrow> string \<Rightarrow> bool" where
  "textEntryCapable element k =
     ((elementClass element = HTMLInputElement \<and> \<not> nonTextInputCheck (inputType element) k)
      \<or> elementClass element = HTMLTextAreaElement
      \<or> isContentEditable element)"

text \<open>An anchor (tag \<^verbatim>\<open>A\<close>) with an \<^verbatim>\<open>href\<close> and no role override.\<close>

definition anchorLike :: "Element \<Rightarrow> bool" where
  "anchorLike element =
     (tagName element = ''A'' \<and> hasHref element
      \<and> (role element = None \<or> role element = Some []))"

definition hasLinkRole :: "Element \<Rightarrow> bool" where
  "hasLinkRole element = (role element = Some ''link'')"

definition keyboardActivationSpec :: "KeyboardEvent \<Rightarrow> Element \<Rightarrow> bool" where
  "keyboardActivationSpec event element =
     (isActivationKey event
      \<and> \<not> textEntryCapable element (key event)
      \<and> \<not> ((anchorLike element \<or> hasLinkRole element) \<and> key event \<noteq> ''Enter''))"

subsection \<open>Example inputs\<close>

definition exampleRect :: Rect where
  "exampleRect = \<lparr>top = 0, right = 100, bottom = 40, left = 0\<rparr>"

definition buttonElement :: Element where
  "buttonElement =
     \<lparr>elementClass = HTMLButtonElement, tagName = ''BUTTON'', role = None, hasHref = False,
      hasDraggable = False, inputType = ''button'', isContentEditable = False,
      boundingClientRect = exampleRect\<rparr>"

definition textInputElement :: Element where
  "textInputElement =
     \<lparr>elementClass = HTMLInputElement, tagName = ''INPUT'', role = None, hasHref = False,
      hasDraggable = False, inputType = ''text'', isContentEditable = False,
      boundingClientRect = exampleRect\<rparr>"

definition anchorElement :: Element where
  "anchorElement =
     \<lparr>elementClass = HTMLAnchorElement, tagName = ''A'', role = None, hasHref = True,
      hasDraggable = False, inputType = [], isContentEditable = False,
      boundingClientRect = exampleRect\<rparr>"

definition defaultOpts :: PressOpts where
  "defaultOpts =
     \<lparr>isDisabled = False, preventFocusOnPress = False, shouldCancelOnPointerExit = False,
      allowTextSelectionOnPress = False\<rparr>"

definition exampleEnv :: Env where
  "exampleEnv =
     \<lparr>opts = defaultOpts, isMac = True, isOpening = False, pointerEventsSupported = True,
      continues = (\<lambda>ev. False)\<rparr>"

definition keyboardEvent :: "Element \<Rightarrow> string \<Rightarrow> string \<Rightarrow> bool \<Rightarrow> KeyboardEvent" where
  "keyboardEvent el k c m =
     \<lparr>currentTarget = Some el, shiftKey = False, ctrlKey = False, metaKey = m,
      altKey = False, targetInside = True, key = k, code = c, repeat = False,
      eventTarget = el, linkClicked = False\<rparr>"

definition pointAt :: "real \<Rightarrow> real \<Rightarrow> EventPoint" where
  "pointAt x y =
     \<lparr>clientX = x, clientY = y, width = Some 1, height = Some 1, radiusX = None,
      radiusY = None\<rparr>"

definition disabledEnv :: Env where
  "disabledEnv = exampleEnv\<lparr>opts := defaultOpts\<lparr>isDisabled := True\<rparr>\<rparr>"

definition enterDown :: KeyboardEvent where
  "enterDown = keyboardEvent buttonElement ''Enter'' ''Enter'' False"

definition openingEnv :: Env where
  "openingEnv = exampleEnv\<lparr>isOpening := True\<rparr>"

definition cancelOnExitEnv :: Env where
  "cancelOnExitEnv =
     exampleEnv\<lparr>opts := defaultOpts\<lparr>shouldCancelOnPointerExit := True\<rparr>\<rparr>"

text \<open>A click with no coordinates, as \<^verbatim>\<open>element.click()\<close> produces it.\<close>

definition virtualClickEvent :: MouseEvent where
  "virtualClickEvent =
     \<lparr>currentTarget = Some buttonElement, shiftKey = False, ctrlKey = False,
      metaKey = False, altKey = False, targetInside = True, button = 0,
      mousePoint = pointAt 0 0, virtualClick = True\<rparr>"

definition pointerEventAt :: "real \<Rightarrow> real \<Rightarrow> PointerEvent" where
  "pointerEventAt x y =
     \<lparr>currentTarget = Some buttonElement, shiftKey = False, ctrlKey = False,
      metaKey = False, altKey = False, targetInside = True, pointerButton = 0,
      pointerId = 1, pointerPoint = pointAt x y, eventPointerType = Mouse,
      virtualPointerEvent = False\<rparr>"

definition aDown :: KeyboardEvent where
  "aDown = keyboardEvent buttonElement ''a'' ''KeyA'' True"

definition metaDown :: KeyboardEvent where
  "metaDown = keyboardEvent buttonElement ''Meta'' ''MetaLeft'' True"

definition metaUp :: KeyboardEvent where
  "metaUp = keyboardEvent buttonElement ''Meta'' ''MetaLeft'' False"

definition enterDownWithMeta :: KeyboardEvent where
  "enterDownWithMeta = keyboardEvent buttonElement ''Enter'' ''Enter'' True"

definition checkboxElement :: Element where
  "checkboxElement = textInputElement\<lparr>inputType := ''checkbox''\<rparr>"

definition submitInputElement :: Element where
  "submitInputElement = textInputElement\<lparr>inputType := ''submit''\<rparr>"

definition roleButtonAnchor :: Element where
  "roleButtonAnchor = anchorElement\<lparr>role := Some ''button''\<rparr>"



section \<open>Properties\<close>

subsection \<open>Basic facts\<close>

lemma dispatchedTypes_simps:
  "dispatchedTypes [] = []"
  "dispatchedTypes (DispatchEvent ev # es) = ev_type ev # dispatchedTypes es"
  "dispatchedTypes (Callback ev # es) = dispatchedTypes es"
  "dispatchedTypes (PressChange b # es) = dispatchedTypes es"
  "dispatchedTypes (xs @ ys) = dispatchedTypes xs @ dispatchedTypes ys"
  by (simp_all add: dispatchedTypes_def)

lemma new_PressEvent_type: "ev_type (new_PressEvent ty pt e) = ty"
  by (simp add: new_PressEvent_def)

lemmas example_defs =
  exampleRect_def buttonElement_def textInputElement_def anchorElement_def defaultOpts_def
  exampleEnv_def keyboardEvent_def pointAt_def initialWorld_def initialState_def
  disabledEnv_def enterDown_def openingEnv_def cancelOnExitEnv_def virtualClickEvent_def
  pointerEventAt_def aDown_def metaDown_def metaUp_def enterDownWithMeta_def
  checkboxElement_def submitInputElement_def roleButtonAnchor_def

subsection \<open>The start trigger fires once\<close>

text \<open>
  Claim C4. Two calls of \<open>triggerPressStart\<close> in succession, with no \<open>triggerPressEnd\<close>
  between them: the second call changes nothing and returns false, whatever the state
  and the two origin events. Together the two calls dispatch one \<open>pressstart\<close> when the
  engine is enabled and no start was pending before the first call (the event of the
  first call, after its callback, followed by the change notification), and none
  otherwise; a call on a disabled engine changes nothing and returns false.
\<close>

theorem triggerPressStart_twice:
  "(let (r1, w1) = triggerPressStart env e1 pt1 w;
        (r2, w2) = triggerPressStart env e2 pt2 w1;
        event = new_PressEvent pressstart pt1 e1
    in r2 = False \<and> w2 = w1
       \<and> count_list (dispatchedTypes (effects w2)) pressstart
           = count_list (dispatchedTypes (effects w)) pressstart
             + (if isDisabled (opts env) \<or> didFirePressStart (state w) then 0 else 1)
       \<and> (\<not> isDisabled (opts env) \<and> \<not> didFirePressStart (state w) \<longrightarrow>
            effects w2 = effects w @ [Callback event, DispatchEvent event, PressChange True]
            \<and> didFirePressStart (state w2) \<and> isPressedStore w2)
       \<and> (isDisabled (opts env) \<longrightarrow> r1 = False \<and> w1 = w))"
  by (simp add: triggerPressStart_def Let_def state_update_def perform_def
      dispatchedTypes_simps new_PressEvent_type)

theorem triggerPressStart_twice_witness:
  "dispatchedTypes
     (effects (snd (triggerPressStart exampleEnv (keyboardEvent buttonElement ''Enter'' ''Enter'' False)
                      Keyboard
                      (snd (triggerPressStart exampleEnv
                              (keyboardEvent buttonElement ''Enter'' ''Enter'' False)
                              Keyboard initialWorld)))))
     = [pressstart]"
proof -
  let ?e = "keyboardEvent buttonElement ''Enter'' ''Enter'' False"
  let ?w2 = "snd (triggerPressStart exampleEnv ?e Keyboard
                    (snd (triggerPressStart exampleEnv ?e Keyboard initialWorld)))"
  have enabled: "\<not> isDisabled (opts exampleEnv)"
    by (simp add: example_defs)
  have fresh: "\<not> didFirePressStart (state initialWorld)"
    by (simp add: example_defs)
  have "effects ?w2
          = effects initialWorld
            @ [Callback (new_PressEvent pressstart Keyboard ?e),
               DispatchEvent (new_PressEvent pressstart Keyboard ?e), PressChange True]"
    using triggerPressStart_twice [of exampleEnv ?e Keyboard initialWorld ?e Keyboard]
          enabled fresh
    by (auto simp add: split_def Let_def)
  moreover have "effects initialWorld = []"
    by (simp add: example_defs)
  ultimately show ?thesis
    by (simp add: dispatchedTypes_simps new_PressEvent_type)
qed

subsection \<open>Disabling during a press\<close>

text \<open>
  Claim C5. When a start is pending and the engine is disabled at the time of the release,
  \<open>triggerPressEnd\<close> with \<open>wasPressed\<close> true still runs the \<open>pressend\<close> callback and
  dispatches \<open>pressend\<close>, sets the public store \<open>isPressed\<close> to false and clears the
  pending start, and it emits no \<open>press\<close> event: \<open>pressend\<close> and the change
  notification are all it adds to the log.
\<close>

theorem triggerPressEnd_disabled:
  "didFirePressStart (state w) \<Longrightarrow> isDisabled (opts env) \<Longrightarrow>
   (let (r, w') = triggerPressEnd env e pt True w;
        event = new_PressEvent pressend pt e
    in effects w' = effects w @ [Callback event, DispatchEvent event, PressChange False]
       \<and> dispatchedTypes (effects w') = dispatchedTypes (effects w) @ [pressend]
       \<and> \<not> isPressedStore w' \<and> \<not> didFirePressStart (state w'))"
  by (simp add: triggerPressEnd_def Let_def state_update_def perform_def
      dispatchedTypes_simps new_PressEvent_type)

theorem triggerPressEnd_disabled_witness:
  "dispatchedTypes
     (effects (snd (triggerPressEnd disabledEnv enterDown Keyboard True
                      (snd (triggerPressStart exampleEnv enterDown Keyboard initialWorld)))))
     = [pressstart, pressend]
   \<and> \<not> isPressedStore
         (snd (triggerPressEnd disabledEnv enterDown Keyboard True
                 (snd (triggerPressStart exampleEnv enterDown Keyboard initialWorld))))"
proof -
  let ?w1 = "snd (triggerPressStart exampleEnv enterDown Keyboard initialWorld)"
  have pending: "didFirePressStart (state ?w1)"
    by (simp add: triggerPressStart_def Let_def state_update_def perform_def example_defs)
  have disabled: "isDisabled (opts disabledEnv)"
    by (simp add: example_defs)
  have before: "dispatchedTypes (effects ?w1) = [pressstart]"
    by (simp add: triggerPressStart_def Let_def state_update_def perform_def example_defs
        dispatchedTypes_simps new_PressEvent_type)
  show ?thesis
    using triggerPressEnd_disabled [OF pending disabled, of enterDown Keyboard] before
    by (auto simp add: split_def Let_def)
qed

subsection \<open>The up trigger\<close>

text \<open>
  Claim C6. \<open>triggerPressUp\<close> runs the \<open>pressup\<close> callback and dispatches \<open>pressup\<close>
  whenever the engine is not disabled, and it changes nothing and returns false exactly
  when the engine is disabled. It neither reads nor writes the pending-start flag
  \<open>didFirePressStart\<close>: setting the flag before the call or after it gives the same
  result. The other two triggers do read the flag: what \<open>triggerPressStart\<close> (on an
  enabled engine) and \<open>triggerPressEnd\<close> add to the log differs with it.
\<close>

theorem triggerPressUp_independent:
  "(let event = new_PressEvent pressup pt e;
        setPending = (\<lambda>b. state_update (\<lambda>cur. cur\<lparr>didFirePressStart := b\<rparr>))
    in triggerPressUp env e pt w
         = (if isDisabled (opts env) then (False, w)
            else (\<not> continues env event,
                  perform [Callback event, DispatchEvent event]
                    (state_update (\<lambda>cur. cur\<lparr>isTriggeringEvent := False\<rparr>) w)))
       \<and> (triggerPressUp env e pt w = (False, w)
              \<and> effects (snd (triggerPressUp env e pt w)) = effects w
            \<longleftrightarrow> isDisabled (opts env))
       \<and> triggerPressUp env e pt (setPending b w)
           = (fst (triggerPressUp env e pt w), setPending b (snd (triggerPressUp env e pt w)))
       \<and> (\<not> isDisabled (opts env) \<longrightarrow>
            effects (snd (triggerPressStart env e pt (setPending True w)))
              \<noteq> effects (snd (triggerPressStart env e pt (setPending False w))))
       \<and> effects (snd (triggerPressEnd env e pt wasPressed (setPending True w)))
              \<noteq> effects (snd (triggerPressEnd env e pt wasPressed (setPending False w))))"
  by (auto simp add: triggerPressUp_def triggerPressStart_def triggerPressEnd_def Let_def
      state_update_def perform_def shouldStopPropagation_def)

theorem triggerPressUp_independent_witness:
  "triggerPressUp exampleEnv enterDown Keyboard initialWorld
     = (True,
        perform [Callback (new_PressEvent pressup Keyboard enterDown),
                 DispatchEvent (new_PressEvent pressup Keyboard enterDown)]
          (state_update (\<lambda>cur. cur\<lparr>isTriggeringEvent := False\<rparr>) initialWorld))"
proof -
  have enabled: "\<not> isDisabled (opts exampleEnv)" "\<not> continues exampleEnv ev" for ev
    by (simp_all add: example_defs)
  show ?thesis
    using triggerPressUp_independent [of Keyboard enterDown exampleEnv initialWorld] enabled
    by (auto simp add: Let_def)
qed

subsection \<open>The hit test\<close>

lemma getPointClientRect_derived: "getPointClientRect point = derivedRect point"
  by (simp add: getPointClientRect_def derivedRect_def inflateX_def inflateY_def Let_def
      split: option.splits)

lemma areRectanglesOverlapping_spec: "areRectanglesOverlapping a b = overlapSpec a b"
  by (auto simp: areRectanglesOverlapping_def overlapSpec_def strictlyLeftOf_def
      strictlyAbove_def)

text \<open>
  For rectangles with \<open>left \<le> right\<close> and \<open>top \<le> bottom\<close> the test says that the
  two closed rectangles share a point.
\<close>

lemma areRectanglesOverlapping_common_point:
  assumes "left a \<le> right a" "top a \<le> bottom a" "left b \<le> right b" "top b \<le> bottom b"
  shows "areRectanglesOverlapping a b \<longleftrightarrow>
         (\<exists>x y. left a \<le> x \<and> x \<le> right a \<and> top a \<le> y \<and> y \<le> bottom a
              \<and> left b \<le> x \<and> x \<le> right b \<and> top b \<le> y \<and> y \<le> bottom b)"
proof
  assume ov: "areRectanglesOverlapping a b"
  then have h: "left a \<le> right b" "left b \<le> right a" "top a \<le> bottom b" "top b \<le> bottom a"
    by (auto simp: areRectanglesOverlapping_def split: if_splits)
  let ?x = "max (left a) (left b)" and ?y = "max (top a) (top b)"
  have "left a \<le> ?x \<and> ?x \<le> right a \<and> top a \<le> ?y \<and> ?y \<le> bottom a
        \<and> left b \<le> ?x \<and> ?x \<le> right b \<and> top b \<le> ?y \<and> ?y \<le> bottom b"
    using assms h by auto
  then show "\<exists>x y. left a \<le> x \<and> x \<le> right a \<and> top a \<le> y \<and> y \<le> bottom a
              \<and> left b \<le> x \<and> x \<le> right b \<and> top b \<le> y \<and> y \<le> bottom b"
    by blast
next
  assume "\<exists>x y. left a \<le> x \<and> x \<le> right a \<and> top a \<le> y \<and> y \<le> bottom a
              \<and> left b \<le> x \<and> x \<le> right b \<and> top b \<le> y \<and> y \<le> bottom b"
  then show "areRectanglesOverlapping a b"
    by (auto simp: areRectanglesOverlapping_def)
qed

text \<open>
  Claim C7. The hit test of a point against a target holds exactly when the target's
  bounding rectangle and the point's derived rectangle overlap. The derived rectangle is
  centred on the point and reaches \<open>inflateX\<close> to the left and to the right (half the
  width if a width is given, else the x radius if given, else zero) and \<open>inflateY\<close> up
  and down (likewise from height and y radius). Two rectangles overlap unless one lies
  strictly to the left of the other or strictly above it, so touching edges overlap.
\<close>

theorem isOverTarget_fn_overlap:
  "isOverTarget_fn point tgt = overlapSpec (boundingClientRect tgt) (derivedRect point)"
  by (simp add: isOverTarget_fn_def Let_def getPointClientRect_derived
      areRectanglesOverlapping_spec)

text \<open>A contact one unit wide centred half a unit right of the target's right edge touches it.\<close>

theorem isOverTarget_fn_overlap_witness:
  "isOverTarget_fn (pointAt (100 + 1 / 2) 20) buttonElement
   \<and> \<not> isOverTarget_fn (pointAt 101 20) buttonElement"
  using isOverTarget_fn_overlap [of "pointAt (100 + 1 / 2) 20" buttonElement]
        isOverTarget_fn_overlap [of "pointAt 101 20" buttonElement]
  by (simp add: overlapSpec_def strictlyLeftOf_def strictlyAbove_def derivedRect_def
      inflateX_def inflateY_def example_defs)

subsection \<open>Keys that activate\<close>

text \<open>
  Claim C8. A keyboard event is accepted as a press activation of an element exactly
  when the key is Enter, a space, \<^verbatim>\<open>Spacebar\<close>, or the code is \<^verbatim>\<open>Space\<close>; the element
  is not text-entry capable for that key (an input whose type and key fail the
  non-text-input check, a textarea, or a content-editable element); and it is not the
  case that the element is anchor-like (an anchor with an \<^verbatim>\<open>href\<close> and no role
  override) or has the role \<^verbatim>\<open>link\<close> while the key is not Enter. The right-hand side
  is written from these words, on the fields of the event and the element alone.
\<close>

theorem isValidKeyboardEvent_iff:
  "isValidKeyboardEvent event element \<longleftrightarrow> keyboardActivationSpec event element"
proof -
  have input: "isValidInputKey element k = nonTextInputCheck (inputType element) k" for k
    by (auto simp add: isValidInputKey_def nonTextInputCheck_def nonTextInputTypes_def)
  have anchor: "(falsy (role element) \<and> isHTMLAnchorLink element) = anchorLike element"
    by (auto simp add: falsy_def isHTMLAnchorLink_def anchorLike_def split: option.splits)
  show ?thesis
    unfolding isValidKeyboardEvent_def keyboardActivationSpec_def isActivationKey_def
      textEntryCapable_def hasLinkRole_def input anchor
    by auto
qed

text \<open>
  The specification's side, evaluated on its own: a button takes space, an anchor takes
  Enter and not space, a text input takes nothing, a checkbox takes space and not Enter,
  a submit input takes Enter, and an anchor with the role button takes space.
\<close>

theorem isValidKeyboardEvent_iff_witness:
  "isValidKeyboardEvent (keyboardEvent buttonElement '' '' ''Space'' False) buttonElement
   \<and> \<not> isValidKeyboardEvent (keyboardEvent anchorElement '' '' ''Space'' False) anchorElement
   \<and> isValidKeyboardEvent (keyboardEvent anchorElement ''Enter'' ''Enter'' False) anchorElement
   \<and> \<not> isValidKeyboardEvent (keyboardEvent textInputElement ''Enter'' ''Enter'' False)
         textInputElement
   \<and> isValidKeyboardEvent (keyboardEvent checkboxElement '' '' ''Space'' False)
       checkboxElement
   \<and> \<not> isValidKeyboardEvent (keyboardEvent checkboxElement ''Enter'' ''Enter'' False)
         checkboxElement
   \<and> isValidKeyboardEvent (keyboardEvent submitInputElement ''Enter'' ''Enter'' False)
       submitInputElement
   \<and> isValidKeyboardEvent (keyboardEvent roleButtonAnchor '' '' ''Space'' False)
       roleButtonAnchor"
proof -
  have spec:
    "keyboardActivationSpec (keyboardEvent buttonElement '' '' ''Space'' False) buttonElement"
    "\<not> keyboardActivationSpec (keyboardEvent anchorElement '' '' ''Space'' False) anchorElement"
    "keyboardActivationSpec (keyboardEvent anchorElement ''Enter'' ''Enter'' False) anchorElement"
    "\<not> keyboardActivationSpec (keyboardEvent textInputElement ''Enter'' ''Enter'' False)
         textInputElement"
    "keyboardActivationSpec (keyboardEvent checkboxElement '' '' ''Space'' False)
       checkboxElement"
    "\<not> keyboardActivationSpec (keyboardEvent checkboxElement ''Enter'' ''Enter'' False)
         checkboxElement"
    "keyboardActivationSpec (keyboardEvent submitInputElement ''Enter'' ''Enter'' False)
       submitInputElement"
    "keyboardActivationSpec (keyboardEvent roleButtonAnchor '' '' ''Space'' False)
       roleButtonAnchor"
    by (simp_all add: keyboardActivationSpec_def isActivationKey_def textEntryCapable_def
        nonTextInputCheck_def anchorLike_def hasLinkRole_def example_defs
        checkboxElement_def submitInputElement_def roleButtonAnchor_def)
  show ?thesis
    using spec
    unfolding isValidKeyboardEvent_iff
    by simp
qed

text \<open>
  On a button Enter and space activate; on a free-text input neither does; on an anchor
  with no role only Enter does.
\<close>

lemma isValidKeyboardEvent_button:
  assumes "elementClass el = HTMLButtonElement" "\<not> isContentEditable el" "role el = None"
    "tagName el \<noteq> ''A''"
  shows "isValidKeyboardEvent event el \<longleftrightarrow> isActivationKey event"
  using assms
  by (auto simp: isValidKeyboardEvent_def isActivationKey_def falsy_def isHTMLAnchorLink_def)

lemma isValidKeyboardEvent_text_input:
  assumes "elementClass el = HTMLInputElement" "inputType el \<notin> nonTextInputTypes"
  shows "\<not> isValidKeyboardEvent event el"
  using assms
  by (auto simp: isValidKeyboardEvent_def isValidInputKey_def nonTextInputTypes_def)

lemma isValidKeyboardEvent_anchor:
  assumes "elementClass el = HTMLAnchorElement" "tagName el = ''A''" "hasHref el"
    "role el = None" "\<not> isContentEditable el"
  shows "isValidKeyboardEvent event el \<longleftrightarrow> key event = ''Enter''"
  using assms
  by (auto simp: isValidKeyboardEvent_def falsy_def isHTMLAnchorLink_def)

subsection \<open>What the building blocks leave alone\<close>

lemma state_simps:
  "state (perform es w) = state w"
  "state (state_update f w) = f (state w)"
  "state (addGlobalListener h w) = state w"
  "state (removeAllGlobalListeners w) = state w"
  "state (stopIf b w) = state w"
  "state (focusOnPress env el w) = state w"
  by (simp_all add: perform_def state_update_def addGlobalListener_def
      removeAllGlobalListeners_def stopIf_def focusOnPress_def)

lemma effects_simps:
  "effects (perform es w) = effects w @ es"
  "effects (state_update f w) = effects w"
  "effects (addGlobalListener h w) = effects w"
  "effects (removeAllGlobalListeners w) = effects w"
  "effects (stopIf b w) = effects w @ (if b then [StopPropagation] else [])"
  "effects (focusOnPress env el w)
     = effects w @ (if \<not> isDisabled (opts env) \<and> \<not> preventFocusOnPress (opts env)
                    then [Focus el] else [])"
  by (simp_all add: perform_def state_update_def addGlobalListener_def
      removeAllGlobalListeners_def stopIf_def focusOnPress_def)

lemma listeners_simps:
  "globalListeners (perform es w) = globalListeners w"
  "globalListeners (state_update f w) = globalListeners w"
  "globalListeners (addGlobalListener h w) = insert h (globalListeners w)"
  "globalListeners (removeAllGlobalListeners w) = {}"
  "globalListeners (stopIf b w) = globalListeners w"
  "globalListeners (focusOnPress env el w) = globalListeners w"
  by (simp_all add: perform_def state_update_def addGlobalListener_def
      removeAllGlobalListeners_def stopIf_def focusOnPress_def)

lemma state_triggerPressStart:
  "state (snd (triggerPressStart env e pt w))
     = (if isDisabled (opts env) \<or> didFirePressStart (state w) then state w
        else (state w)\<lparr>isTriggeringEvent := False, didFirePressStart := True\<rparr>)"
  by (simp add: triggerPressStart_def Let_def state_update_def perform_def)

lemma state_triggerPressEnd:
  "state (snd (triggerPressEnd env e pt wasPressed w))
     = (if didFirePressStart (state w)
        then (state w)\<lparr>ignoreClickAfterPress := True, didFirePressStart := False,
                       isTriggeringEvent := False\<rparr>
        else state w)"
  by (simp add: triggerPressEnd_def Let_def state_update_def perform_def)

lemma state_triggerPressUp:
  "state (snd (triggerPressUp env e pt w))
     = (if isDisabled (opts env) then state w else (state w)\<lparr>isTriggeringEvent := False\<rparr>)"
  by (simp add: triggerPressUp_def Let_def state_update_def perform_def)

lemma effects_triggerPressStart:
  "effects (snd (triggerPressStart env e pt w))
     = effects w
       @ (if isDisabled (opts env) \<or> didFirePressStart (state w) then []
          else [Callback (new_PressEvent pressstart pt e),
                DispatchEvent (new_PressEvent pressstart pt e), PressChange True])"
  by (simp add: triggerPressStart_def Let_def state_update_def perform_def)

lemma effects_triggerPressEnd:
  "effects (snd (triggerPressEnd env e pt wasPressed w))
     = effects w
       @ (if didFirePressStart (state w)
          then [Callback (new_PressEvent pressend pt e),
                DispatchEvent (new_PressEvent pressend pt e), PressChange False]
               @ (if wasPressed \<and> \<not> isDisabled (opts env)
                  then [Callback (new_PressEvent press pt e),
                        DispatchEvent (new_PressEvent press pt e)]
                  else [])
          else [])"
  by (simp add: triggerPressEnd_def Let_def state_update_def perform_def)

lemma effects_triggerPressUp:
  "effects (snd (triggerPressUp env e pt w))
     = effects w
       @ (if isDisabled (opts env) then []
          else [Callback (new_PressEvent pressup pt e),
                DispatchEvent (new_PressEvent pressup pt e)])"
  by (simp add: triggerPressUp_def Let_def state_update_def perform_def)

lemma listeners_trigger:
  "globalListeners (snd (triggerPressStart env e pt w)) = globalListeners w"
  "globalListeners (snd (triggerPressEnd env e pt b w)) = globalListeners w"
  "globalListeners (snd (triggerPressUp env e pt w)) = globalListeners w"
  by (simp_all add: triggerPressStart_def triggerPressEnd_def triggerPressUp_def Let_def
      state_update_def perform_def)

lemmas frame_simps =
  state_simps effects_simps listeners_simps state_triggerPressStart state_triggerPressEnd
  state_triggerPressUp effects_triggerPressStart effects_triggerPressEnd
  effects_triggerPressUp listeners_trigger

subsection \<open>The document keyup listener\<close>

lemma state_base_onKeyUp:
  "state (base_onKeyUp env e w) = state w
   \<or> state (base_onKeyUp env e w) = (state w)\<lparr>isTriggeringEvent := False\<rparr>"
  by (simp add: base_onKeyUp_def Let_def frame_simps split: option.splits)

lemma metaKeyEvents_base_onKeyUp:
  "metaKeyEvents (state (base_onKeyUp env e w)) = metaKeyEvents (state w)"
  using state_base_onKeyUp [of env e w] by auto

lemma metaKeyEvents_endKeyboardPress:
  "metaKeyEvents (state w) = None \<Longrightarrow>
   metaKeyEvents (state (endKeyboardPress env e tgt w)) = None"
  by (simp add: endKeyboardPress_def Let_def split_def frame_simps)

lemma metaKeyEvents_onKeyUp_once:
  "metaKeyEvents (state w) = None \<Longrightarrow> metaKeyEvents (state (onKeyUp_once env e w)) = None"
  by (simp add: onKeyUp_once_def metaKeyEvents_endKeyboardPress split: option.splits)

lemma onKeyUp_fuel_no_record:
  "metaKeyEvents (state w) = None \<Longrightarrow>
   onKeyUp_fuel (Suc n) env e w = Some (onKeyUp_once env e w)"
  by (simp add: onKeyUp_once_def Let_def split: option.splits)

lemma dispatchKeyUp_no_record:
  assumes "metaKeyEvents (state w) = None"
  shows "dispatchKeyUp (onKeyUp_fuel (Suc n)) env tgt event w
           = Some (replayKeyUp env tgt event w)"
    and "metaKeyEvents (state (replayKeyUp env tgt event w)) = None"
proof -
  let ?w2 = "base_onKeyUp env (syntheticKeyUp tgt event) (perform [DispatchKeyUp tgt event] w)"
  have none: "metaKeyEvents (state ?w2) = None"
    using assms by (simp add: metaKeyEvents_base_onKeyUp frame_simps)
  show "dispatchKeyUp (onKeyUp_fuel (Suc n)) env tgt event w
           = Some (replayKeyUp env tgt event w)"
    using none
    by (simp add: dispatchKeyUp_def replayKeyUp_def Let_def onKeyUp_fuel_no_record
        del: onKeyUp_fuel.simps)
  show "metaKeyEvents (state (replayKeyUp env tgt event w)) = None"
    using none by (simp add: replayKeyUp_def Let_def metaKeyEvents_onKeyUp_once)
qed

lemma dispatchEach_no_record:
  "metaKeyEvents (state w) = None \<Longrightarrow>
   dispatchEach (dispatchKeyUp (onKeyUp_fuel (Suc n)) env tgt) events w
     = Some (foldl (\<lambda>x event. replayKeyUp env tgt event x) w events)"
proof (induction events arbitrary: w)
  case Nil
  show ?case by simp
next
  case (Cons event events)
  from Cons.prems have step: "dispatchKeyUp (onKeyUp_fuel (Suc n)) env tgt event w
      = Some (replayKeyUp env tgt event w)"
    and none: "metaKeyEvents (state (replayKeyUp env tgt event w)) = None"
    by (rule dispatchKeyUp_no_record)+
  show ?case
    using Cons.IH [OF none] by (simp add: step del: onKeyUp_fuel.simps)
qed

text \<open>
  The handler as a function of the world alone: any bound of at least two gives this
  result.
\<close>

lemma onKeyUp_fuel_result:
  "onKeyUp_fuel (Suc (Suc n)) env e w =
     Some (let s = state w;
               otherwise =
                 (if key e = ''Meta'' then
                    (case metaKeyEvents s of
                       None \<Rightarrow> w
                     | Some events \<Rightarrow>
                         if events = [] then w
                         else
                           let w1 = state_update (\<lambda>cur. cur\<lparr>metaKeyEvents := None\<rparr>) w
                           in (case target s of
                                 None \<Rightarrow> w1
                               | Some tgt \<Rightarrow>
                                   foldl (\<lambda>x event. replayKeyUp env tgt event x) w1
                                     (map snd events)))
                  else w)
           in case target s of
                None \<Rightarrow> otherwise
              | Some tgt \<Rightarrow>
                  if isPressed s \<and> isValidKeyboardEvent e tgt
                  then endKeyboardPress env e tgt w
                  else otherwise)"
proof -
  have loop: "dispatchEach (dispatchKeyUp (onKeyUp_fuel (Suc n)) env tgt) events
                (state_update (\<lambda>cur. cur\<lparr>metaKeyEvents := None\<rparr>) w)
              = Some (foldl (\<lambda>x event. replayKeyUp env tgt event x)
                        (state_update (\<lambda>cur. cur\<lparr>metaKeyEvents := None\<rparr>) w) events)"
    for tgt events
    by (rule dispatchEach_no_record) (simp add: frame_simps)
  show ?thesis
    unfolding onKeyUp_fuel.simps(2) [of "Suc n"]
    by (simp add: Let_def loop del: onKeyUp_fuel.simps split: option.splits)
qed

lemma onKeyUp_unfold:
  "onKeyUp env e w =
     (let s = state w;
          otherwise =
            (if key e = ''Meta'' then
               (case metaKeyEvents s of
                  None \<Rightarrow> w
                | Some events \<Rightarrow>
                    if events = [] then w
                    else
                      let w1 = state_update (\<lambda>cur. cur\<lparr>metaKeyEvents := None\<rparr>) w
                      in (case target s of
                            None \<Rightarrow> w1
                          | Some tgt \<Rightarrow>
                              foldl (\<lambda>x event. replayKeyUp env tgt event x) w1
                                (map snd events)))
             else w)
      in case target s of
           None \<Rightarrow> otherwise
         | Some tgt \<Rightarrow>
             if isPressed s \<and> isValidKeyboardEvent e tgt
             then endKeyboardPress env e tgt w
             else otherwise)"
  unfolding onKeyUp_def numeral_2_eq_2 onKeyUp_fuel_result by simp

text \<open>The handler returns, whatever the bound from two on.\<close>

lemma onKeyUp_fuel_enough: "onKeyUp_fuel (Suc (Suc n)) env e w = Some (onKeyUp env e w)"
  unfolding onKeyUp_unfold onKeyUp_fuel_result ..

subsection \<open>Virtual clicks\<close>

text \<open>
  The click handler does its work only while \<^verbatim>\<open>openLink.isOpening\<close> is set, that is,
  only for a click that \<^verbatim>\<open>openLink\<close> itself is dispatching with \<^verbatim>\<open>setOpening\<close> true.
\<close>

lemma base_onClick_not_opening: "\<not> isOpening env \<Longrightarrow> base_onClick env e w = w"
  by (simp add: base_onClick_def Let_def split: option.splits)

text \<open>
  Claim C1, at the input where the code departs from it. The engine is fresh, enabled and
  bound to a button, no \<^verbatim>\<open>openLink\<close> call is in progress, and a virtual click with
  button 0 arrives at the button: the handler leaves the world as it was. It does not
  focus the target and emits none of \<open>pressstart\<close>, \<open>pressup\<close>, \<open>pressend\<close>, \<open>press\<close>.
\<close>

theorem base_onClick_virtual_click_ignored:
  "step exampleEnv (Click virtualClickEvent) initialWorld = initialWorld
   \<and> button virtualClickEvent = 0 \<and> virtualClick virtualClickEvent
   \<and> state initialWorld = initialState \<and> effects initialWorld = []"
  by (simp add: base_onClick_not_opening exampleEnv_def virtualClickEvent_def
      initialWorld_def)

text \<open>
  Once the entry test of the handler is passed, the virtual branch does what the claim
  describes, on an enabled engine with no start pending: focus first (unless
  \<^verbatim>\<open>preventFocusOnPress\<close>), then the start, up, end and press events, all with pointer
  type virtual.
\<close>

lemma base_onClick_virtual_when_opening:
  assumes "currentTarget e = Some ct" "isHTMLorSVGElement ct" "targetInside e" "button e = 0"
    and "\<not> isTriggeringEvent (state w)" "\<not> ignoreClickAfterPress (state w)"
    and "\<not> ignoreEmulatedMouseEvents (state w)" "\<not> isPressed (state w)"
    and "pointerType (state w) = Some Virtual \<or> virtualClick e"
    and "isOpening env" "\<not> isDisabled (opts env)" "\<not> didFirePressStart (state w)"
  shows "effects (base_onClick env e w)
           = effects w
             @ (if preventFocusOnPress (opts env) then [] else [Focus ct])
             @ [Callback (new_PressEvent pressstart Virtual e),
                DispatchEvent (new_PressEvent pressstart Virtual e), PressChange True,
                Callback (new_PressEvent pressup Virtual e),
                DispatchEvent (new_PressEvent pressup Virtual e),
                Callback (new_PressEvent pressend Virtual e),
                DispatchEvent (new_PressEvent pressend Virtual e), PressChange False,
                Callback (new_PressEvent press Virtual e),
                DispatchEvent (new_PressEvent press Virtual e)]
             @ (if continues env (new_PressEvent pressstart Virtual e)
                   \<or> continues env (new_PressEvent pressup Virtual e)
                   \<or> continues env (new_PressEvent pressend Virtual e)
                   \<or> continues env (new_PressEvent press Virtual e)
                then [] else [StopPropagation])"
  using assms
  by (auto simp add: base_onClick_def Let_def split_def frame_simps triggerPressStart_def
      triggerPressUp_def triggerPressEnd_def shouldStopPropagation_def state_update_def
      perform_def stopIf_def focusOnPress_def)

lemma base_onClick_virtual_when_opening_example:
  "dispatchedTypes (effects (step openingEnv (Click virtualClickEvent) initialWorld))
     = [pressstart, pressup, pressend, press]"
proof -
  have h: "currentTarget virtualClickEvent = Some buttonElement"
    "isHTMLorSVGElement buttonElement" "targetInside virtualClickEvent"
    "button virtualClickEvent = 0" "\<not> isTriggeringEvent (state initialWorld)"
    "\<not> ignoreClickAfterPress (state initialWorld)"
    "\<not> ignoreEmulatedMouseEvents (state initialWorld)" "\<not> isPressed (state initialWorld)"
    "pointerType (state initialWorld) = Some Virtual \<or> virtualClick virtualClickEvent"
    "isOpening openingEnv" "\<not> isDisabled (opts openingEnv)"
    "\<not> didFirePressStart (state initialWorld)"
    by (simp_all add: example_defs isHTMLorSVGElement_def isHTMLElement_def)
  have "effects initialWorld = []" "\<not> preventFocusOnPress (opts openingEnv)"
    by (simp_all add: example_defs)
  then show ?thesis
    using base_onClick_virtual_when_opening [OF h]
    by (simp add: dispatchedTypes_simps dispatchedTypes_def new_PressEvent_type)
qed

subsection \<open>Releasing Meta\<close>

lemma isValidKeyboardEvent_needs_key:
  "key e \<notin> {''Enter'', '' '', ''Spacebar''} \<Longrightarrow> code e \<noteq> ''Space'' \<Longrightarrow>
   \<not> isValidKeyboardEvent e el"
  by (simp add: isValidKeyboardEvent_def)

text \<open>
  A key that is not an activation key of the element, other than Meta itself, is not
  recorded: the keydown handler does nothing at all.
\<close>

lemma base_onKeyDown_other_key:
  "\<not> isValidKeyboardEvent e el \<Longrightarrow> currentTarget e = Some el \<Longrightarrow> key e \<noteq> ''Meta'' \<Longrightarrow>
   base_onKeyDown env e w = w"
  by (simp add: base_onKeyDown_def)

lemma syntheticKeyUp_simps:
  "key (syntheticKeyUp tgt event) = key event"
  "code (syntheticKeyUp tgt event) = code event"
  "repeat (syntheticKeyUp tgt event) = repeat event"
  "currentTarget (syntheticKeyUp tgt event) = Some tgt"
  "targetInside (syntheticKeyUp tgt event)"
  "eventTarget (syntheticKeyUp tgt event) = tgt"
  "\<not> linkClicked (syntheticKeyUp tgt event)"
  "createEvent el (syntheticKeyUp tgt event) = createEvent el event"
  "isValidKeyboardEvent (syntheticKeyUp tgt event) el = isValidKeyboardEvent event el"
  by (simp_all add: syntheticKeyUp_def createEvent_def isValidKeyboardEvent_def)

text \<open>
  Claim C3 as stated fails. On a Mac, with the engine bound to a button: keydown of
  \<^verbatim>\<open>a\<close> with the meta flag set, keydown of Meta, keyup of Meta at the element and at
  the document. Nothing is dispatched, neither through the delivery of the events nor by
  the document handler called directly, and the record of keys is empty when Meta is
  released.
\<close>

theorem meta_keyup_after_a_dispatches_nothing:
  "effects (run [(exampleEnv, KeyDown aDown), (exampleEnv, KeyDown metaDown),
                 (exampleEnv, KeyUp metaUp), (exampleEnv, DocumentKeyUp metaUp)]
              initialWorld) = []
   \<and> effects (onKeyUp exampleEnv metaUp
                (run [(exampleEnv, KeyDown aDown), (exampleEnv, KeyDown metaDown)]
                   initialWorld)) = []
   \<and> metaKeyEvents (state (run [(exampleEnv, KeyDown aDown), (exampleEnv, KeyDown metaDown)]
                              initialWorld)) = Some []"
  by (simp add: base_onKeyDown_def base_onKeyUp_def onKeyUp_unfold whenListening_def
      isValidKeyboardEvent_def isHTMLorSVGElement_def isHTMLElement_def state_update_def
      example_defs)

text \<open>
  Claim C3, amended. On a Mac, with the engine enabled, idle and bound to an element:
  after a keydown of Meta at the element (which creates the record) and a first,
  non-repeating keydown of a key that activates the element, with the meta flag set
  (which starts a keyboard press and is recorded), and with no keyup of that key, the
  keyup of Meta at the document dispatches one keyup for the recorded key on the
  recorded target and drops the record. The dispatched keyup reaches the engine's own
  listeners at once: the element's keyup handler emits \<open>pressup\<close>, and the document
  listener ends the press with \<open>pressend\<close> and \<open>press\<close>, clears \<^verbatim>\<open>isPressed\<close> and
  removes the document listeners.
\<close>

theorem meta_keyup_replays_recorded_activation_key:
  assumes mac: "isMac env" and enabled: "\<not> isDisabled (opts env)"
    and el: "isHTMLorSVGElement el"
    and md: "currentTarget md = Some el" "key md = ''Meta''" "code md \<noteq> ''Space''"
    and kd: "currentTarget kd = Some el" "isValidKeyboardEvent kd el" "targetInside kd"
            "\<not> repeat kd" "metaKey kd"
    and mu: "key mu = ''Meta''" "code mu \<noteq> ''Space''"
    and idle: "\<not> isPressed (state w)"
  shows "(let w2 = run [(env, KeyDown md), (env, KeyDown kd)] w;
              w3 = step env (DocumentKeyUp mu) w2;
              up = new_PressEvent pressup Keyboard (createEvent el kd);
              en = new_PressEvent pressend Keyboard (createEvent el kd);
              pr = new_PressEvent press Keyboard (createEvent el kd)
          in metaKeyEvents (state w2) = Some [(key kd, kd)]
             \<and> isPressed (state w2)
             \<and> effects w3
                 = effects w2
                   @ [DispatchKeyUp el kd, Callback up, DispatchEvent up]
                   @ (if shouldPreventDefaultKeyboard el (key kd) then [PreventDefault] else [])
                   @ [Callback en, DispatchEvent en, PressChange False, Callback pr,
                      DispatchEvent pr]
                   @ (if continues env en \<or> continues env pr then [] else [StopPropagation])
                   @ (if key kd \<noteq> ''Enter'' \<and> isHTMLAnchorLink el then [OpenLink el] else [])
             \<and> dispatchedTypes (effects w3)
                 = dispatchedTypes (effects w2) @ [pressup, pressend, press]
             \<and> metaKeyEvents (state w3) = None
             \<and> \<not> isPressed (state w3)
             \<and> globalListeners w3 = {})"
proof -
  have nv: "\<not> isValidKeyboardEvent md el" "\<not> isValidKeyboardEvent mu el"
    using md mu by (simp_all add: isValidKeyboardEvent_needs_key)
  define w1 where "w1 = state_update (\<lambda>cur. cur\<lparr>metaKeyEvents := Some []\<rparr>) w"
  define w2 where "w2 = base_onKeyDown env kd w1"
  define w2' where "w2' = state_update (\<lambda>cur. cur\<lparr>metaKeyEvents := None\<rparr>) w2"
  have first: "base_onKeyDown env md w = w1"
    using nv md el by (simp add: base_onKeyDown_def w1_def)
  have s1: "\<not> isPressed (state w1)" "metaKeyEvents (state w1) = Some []"
    using idle by (simp_all add: w1_def frame_simps)
  have s2: "metaKeyEvents (state w2) = Some [(key kd, kd)]"
           "target (state w2) = Some el" "isPressed (state w2)"
           "H_onKeyUp \<in> globalListeners w2" "didFirePressStart (state w2)"
    using kd el mac s1 enabled
    by (simp_all add: w2_def base_onKeyDown_def Let_def split_def frame_simps Map_set_def)
  have s2': "target (state w2') = Some el" "isPressed (state w2')"
           "H_onKeyUp \<in> globalListeners w2'" "didFirePressStart (state w2')"
           "effects w2' = effects w2"
    using s2 by (simp_all add: w2'_def frame_simps)
  have meta: "onKeyUp env mu w2 = replayKeyUp env el kd w2'"
    using s2 nv mu by (simp add: onKeyUp_unfold Let_def w2'_def)
  have replay:
    "effects (replayKeyUp env el kd w2')
       = effects w2
         @ [DispatchKeyUp el kd, Callback (new_PressEvent pressup Keyboard (createEvent el kd)),
            DispatchEvent (new_PressEvent pressup Keyboard (createEvent el kd))]
         @ (if shouldPreventDefaultKeyboard el (key kd) then [PreventDefault] else [])
         @ [Callback (new_PressEvent pressend Keyboard (createEvent el kd)),
            DispatchEvent (new_PressEvent pressend Keyboard (createEvent el kd)),
            PressChange False,
            Callback (new_PressEvent press Keyboard (createEvent el kd)),
            DispatchEvent (new_PressEvent press Keyboard (createEvent el kd))]
         @ (if continues env (new_PressEvent pressend Keyboard (createEvent el kd))
               \<or> continues env (new_PressEvent press Keyboard (createEvent el kd))
            then [] else [StopPropagation])
         @ (if key kd \<noteq> ''Enter'' \<and> isHTMLAnchorLink el then [OpenLink el] else [])"
    "metaKeyEvents (state (replayKeyUp env el kd w2')) = None"
    "\<not> isPressed (state (replayKeyUp env el kd w2'))"
    "globalListeners (replayKeyUp env el kd w2') = {}"
    using s2' kd el enabled
    by (auto simp add: replayKeyUp_def base_onKeyUp_def onKeyUp_once_def endKeyboardPress_def
        Let_def split_def frame_simps syntheticKeyUp_simps w2'_def
        triggerPressEnd_def shouldStopPropagation_def stopIf_def state_update_def
        perform_def removeAllGlobalListeners_def)
  have types: "dispatchedTypes (effects (replayKeyUp env el kd w2'))
                 = dispatchedTypes (effects w2) @ [pressup, pressend, press]"
    unfolding replay(1)
    by (simp add: dispatchedTypes_simps dispatchedTypes_def new_PressEvent_type)
  have "run [(env, KeyDown md), (env, KeyDown kd)] w = w2"
    by (simp add: first w2_def)
  then show ?thesis
    using s2 replay types by (simp add: Let_def whenListening_def meta)
qed

theorem meta_keyup_replays_recorded_activation_key_witness:
  "dispatchedTypes
     (effects (run [(exampleEnv, KeyDown metaDown), (exampleEnv, KeyDown enterDownWithMeta),
                    (exampleEnv, DocumentKeyUp metaUp)] initialWorld))
     = [pressstart, pressup, pressend, press]
   \<and> DispatchKeyUp buttonElement enterDownWithMeta
       \<in> set (effects (run [(exampleEnv, KeyDown metaDown),
                             (exampleEnv, KeyDown enterDownWithMeta),
                             (exampleEnv, DocumentKeyUp metaUp)] initialWorld))"
proof -
  have h: "isMac exampleEnv" "\<not> isDisabled (opts exampleEnv)"
    "isHTMLorSVGElement buttonElement"
    "currentTarget metaDown = Some buttonElement" "key metaDown = ''Meta''"
    "code metaDown \<noteq> ''Space''"
    "currentTarget enterDownWithMeta = Some buttonElement"
    "isValidKeyboardEvent enterDownWithMeta buttonElement" "targetInside enterDownWithMeta"
    "\<not> repeat enterDownWithMeta" "metaKey enterDownWithMeta"
    "key metaUp = ''Meta''" "code metaUp \<noteq> ''Space''"
    "\<not> isPressed (state initialWorld)"
    by (simp_all add: example_defs isHTMLorSVGElement_def isHTMLElement_def
        isValidKeyboardEvent_def isHTMLAnchorLink_def falsy_def)
  have before: "dispatchedTypes
     (effects (run [(exampleEnv, KeyDown metaDown), (exampleEnv, KeyDown enterDownWithMeta)]
                 initialWorld)) = [pressstart]"
    by (simp add: base_onKeyDown_def Let_def split_def frame_simps isValidKeyboardEvent_def
      isHTMLorSVGElement_def isHTMLElement_def isHTMLAnchorLink_def falsy_def
      shouldPreventDefaultKeyboard_def dispatchedTypes_simps dispatchedTypes_def
      new_PressEvent_type example_defs)
  let ?w2 = "run [(exampleEnv, KeyDown metaDown), (exampleEnv, KeyDown enterDownWithMeta)]
               initialWorld"
  let ?w3 = "step exampleEnv (DocumentKeyUp metaUp) ?w2"
  note inst = meta_keyup_replays_recorded_activation_key [OF h]
  from inst have types: "dispatchedTypes (effects ?w3)
      = dispatchedTypes (effects ?w2) @ [pressup, pressend, press]"
    unfolding Let_def by blast
  from inst have "\<exists>rest. effects ?w3 = effects ?w2 @ DispatchKeyUp buttonElement enterDownWithMeta # rest"
    unfolding Let_def by auto
  then have "DispatchKeyUp buttonElement enterDownWithMeta \<in> set (effects ?w3)"
    by auto
  moreover have "run [(exampleEnv, KeyDown metaDown), (exampleEnv, KeyDown enterDownWithMeta),
                      (exampleEnv, DocumentKeyUp metaUp)] initialWorld = ?w3"
    by simp
  ultimately show ?thesis
    using types before by simp
qed

subsection \<open>Leaving the target and coming back\<close>

lemma onPointerMove_no_active_pointer:
  "activePointerId (state w) = None \<Longrightarrow> onPointerMove env e w = w"
  by (simp add: onPointerMove_def)

lemma pointerMoves_no_active_pointer:
  "activePointerId (state w) = None \<Longrightarrow> run (pointerMoves ms) w = w"
  by (induction ms) (simp_all add: pointerMoves_def whenListening_def
      onPointerMove_no_active_pointer)

text \<open>
  Claim C9. The engine is in a pointer press over the target: the target and the active
  pointer are recorded, the pointer is over the target and a start is pending. A move of
  the active pointer to a point off the target dispatches \<open>pressend\<close> and no \<open>press\<close>.
  Without \<^verbatim>\<open>shouldCancelOnPointerExit\<close> the press goes on (same active pointer), and a
  later move of that pointer to a point over the target dispatches a new \<open>pressstart\<close>
  (on an enabled engine). With \<^verbatim>\<open>shouldCancelOnPointerExit\<close> the move off the target also cancels:
  the press and the active pointer are cleared, the text selection is restored, the
  document listeners are removed, and neither the move back nor any further sequence of
  pointer moves changes anything, so no \<open>pressstart\<close> follows.
\<close>

theorem pointer_exit_then_return:
  assumes pressed: "isPressed (state w)" "target (state w) = Some tgt"
      "activePointerId (state w) = Some pid" "isOverTarget (state w)"
      "pointerType (state w) = Some pt" "didFirePressStart (state w)"
    and leave: "pointerId leave = pid" "\<not> isOverTarget_fn (pointerPoint leave) tgt"
    and reentry: "pointerId reentry = pid" "isOverTarget_fn (pointerPoint reentry) tgt"
  shows "(let w1 = onPointerMove env leave w;
              w2 = onPointerMove env reentry w1;
              endEvent = new_PressEvent pressend pt (createEvent tgt leave);
              startEvent = new_PressEvent pressstart pt (createEvent tgt reentry)
          in (\<not> shouldCancelOnPointerExit (opts env) \<longrightarrow>
                effects w1
                  = effects w @ [Callback endEvent, DispatchEvent endEvent, PressChange False]
                \<and> (\<not> isDisabled (opts env) \<longrightarrow>
                      effects w2
                        = effects w1
                          @ [Callback startEvent, DispatchEvent startEvent, PressChange True])
                \<and> isPressed (state w1) \<and> activePointerId (state w1) = Some pid)
             \<and> (shouldCancelOnPointerExit (opts env) \<longrightarrow>
                  effects w1
                    = effects w @ [Callback endEvent, DispatchEvent endEvent, PressChange False]
                      @ (if allowTextSelectionOnPress (opts env) then []
                         else [RestoreTextSelection tgt])
                  \<and> \<not> isPressed (state w1) \<and> activePointerId (state w1) = None
                  \<and> globalListeners w1 = {}
                  \<and> w2 = w1
                  \<and> (\<forall>ms. run (pointerMoves ms) w1 = w1)))"
proof -
  let ?w1 = "onPointerMove env leave w"
  have keep: "\<not> shouldCancelOnPointerExit (opts env) \<Longrightarrow>
      effects ?w1 = effects w @ [Callback (new_PressEvent pressend pt (createEvent tgt leave)),
                                 DispatchEvent (new_PressEvent pressend pt (createEvent tgt leave)),
                                 PressChange False]
      \<and> isPressed (state ?w1) \<and> activePointerId (state ?w1) = Some pid
      \<and> target (state ?w1) = Some tgt \<and> \<not> isOverTarget (state ?w1)
      \<and> pointerType (state ?w1) = Some pt \<and> \<not> didFirePressStart (state ?w1)"
    using pressed leave
    by (simp add: onPointerMove_def cancelOnPointerExit_def Let_def frame_simps)
  have again: "\<not> shouldCancelOnPointerExit (opts env) \<Longrightarrow> \<not> isDisabled (opts env) \<Longrightarrow>
      effects (onPointerMove env reentry ?w1)
        = effects ?w1 @ [Callback (new_PressEvent pressstart pt (createEvent tgt reentry)),
                         DispatchEvent (new_PressEvent pressstart pt (createEvent tgt reentry)),
                         PressChange True]"
    using keep reentry
    by (simp add: onPointerMove_def [of env reentry] Let_def frame_simps)
  have gone: "shouldCancelOnPointerExit (opts env) \<Longrightarrow>
      effects ?w1 = effects w @ [Callback (new_PressEvent pressend pt (createEvent tgt leave)),
                                 DispatchEvent (new_PressEvent pressend pt (createEvent tgt leave)),
                                 PressChange False]
                    @ (if allowTextSelectionOnPress (opts env) then []
                       else [RestoreTextSelection tgt])
      \<and> \<not> isPressed (state ?w1) \<and> activePointerId (state ?w1) = None
      \<and> globalListeners ?w1 = {}"
    using pressed leave
    by (simp add: onPointerMove_def cancelOnPointerExit_def cancel_def clearPress_def Let_def
        frame_simps)
  have after: "shouldCancelOnPointerExit (opts env) \<Longrightarrow>
      onPointerMove env reentry ?w1 = ?w1 \<and> (\<forall>ms. run (pointerMoves ms) ?w1 = ?w1)"
    using gone by (simp add: onPointerMove_no_active_pointer pointerMoves_no_active_pointer)
  show ?thesis
    unfolding Let_def using keep again gone after by blast
qed

text \<open>
  A mouse pointer goes down on the button at (50, 20), moves to (200, 20) off the button
  and back to (50, 20).
\<close>

theorem pointer_exit_then_return_witness:
  "dispatchedTypes
     (effects (onPointerMove exampleEnv (pointerEventAt 50 20)
                (onPointerMove exampleEnv (pointerEventAt 200 20)
                   (pointer_onPointerDown exampleEnv (pointerEventAt 50 20) initialWorld))))
     = [pressstart, pressend, pressstart]
   \<and> dispatchedTypes
       (effects (onPointerMove cancelOnExitEnv (pointerEventAt 50 20)
                  (onPointerMove cancelOnExitEnv (pointerEventAt 200 20)
                     (pointer_onPointerDown cancelOnExitEnv (pointerEventAt 50 20)
                        initialWorld))))
     = [pressstart, pressend]"
proof -
  let ?down = "pointerEventAt 50 20" and ?leave = "pointerEventAt 200 20"
  have el: "currentTarget ?down = Some buttonElement" "isHTMLorSVGElement buttonElement"
    "pointerButton ?down = 0" "targetInside ?down" "\<not> virtualPointerEvent ?down"
    "pointerId ?down = 1" "pointerId ?leave = 1" "eventPointerType ?down = Mouse"
    by (simp_all add: pointerEventAt_def isHTMLorSVGElement_def isHTMLElement_def example_defs)
  have geo: "\<not> isOverTarget_fn (pointerPoint ?leave) buttonElement"
    "isOverTarget_fn (pointerPoint ?down) buttonElement"
    by (simp_all add: pointerEventAt_def isOverTarget_fn_def getPointClientRect_def
        areRectanglesOverlapping_def Let_def example_defs)
  have envs: "\<not> isDisabled (opts exampleEnv)" "\<not> isDisabled (opts cancelOnExitEnv)"
    "\<not> shouldCancelOnPointerExit (opts exampleEnv)"
    "shouldCancelOnPointerExit (opts cancelOnExitEnv)"
    by (simp_all add: example_defs)
  have init: "\<not> isPressed (state initialWorld)" "\<not> didFirePressStart (state initialWorld)"
    "effects initialWorld = []"
    by (simp_all add: example_defs)
  have down: "isPressed (state (pointer_onPointerDown env ?down initialWorld))
      \<and> target (state (pointer_onPointerDown env ?down initialWorld)) = Some buttonElement
      \<and> activePointerId (state (pointer_onPointerDown env ?down initialWorld)) = Some 1
      \<and> isOverTarget (state (pointer_onPointerDown env ?down initialWorld))
      \<and> pointerType (state (pointer_onPointerDown env ?down initialWorld)) = Some Mouse
      \<and> didFirePressStart (state (pointer_onPointerDown env ?down initialWorld))
      \<and> dispatchedTypes (effects (pointer_onPointerDown env ?down initialWorld)) = [pressstart]"
    if "\<not> isDisabled (opts env)" for env
    using that el init
    by (simp add: pointer_onPointerDown_def Let_def split_def frame_simps
        dispatchedTypes_simps dispatchedTypes_def new_PressEvent_type)
  note d1 = down [OF envs(1)] and d2 = down [OF envs(2)]
  have a: "dispatchedTypes
     (effects (onPointerMove exampleEnv ?down
                (onPointerMove exampleEnv ?leave
                   (pointer_onPointerDown exampleEnv ?down initialWorld))))
     = [pressstart, pressend, pressstart]"
    using pointer_exit_then_return
            [of "pointer_onPointerDown exampleEnv ?down initialWorld" buttonElement 1 Mouse
                ?leave ?down exampleEnv]
          d1 el geo envs
    by (simp add: Let_def dispatchedTypes_simps new_PressEvent_type)
  have b: "dispatchedTypes
     (effects (onPointerMove cancelOnExitEnv ?down
                (onPointerMove cancelOnExitEnv ?leave
                   (pointer_onPointerDown cancelOnExitEnv ?down initialWorld))))
     = [pressstart, pressend]"
    using pointer_exit_then_return
            [of "pointer_onPointerDown cancelOnExitEnv ?down initialWorld" buttonElement 1 Mouse
                ?leave ?down cancelOnExitEnv]
          d2 el geo envs
    by (simp add: Let_def dispatchedTypes_simps dispatchedTypes_def new_PressEvent_type)
  show ?thesis
    using a b by simp
qed

subsection \<open>Invariants of the document keyup listener\<close>

text \<open>
  A property of worlds that the end of a keyboard press, the element's keyup handler,
  logging and dropping the record of keys all keep is kept by the document keyup
  listener, replays included.
\<close>

lemma onKeyUp_keeps:
  assumes ends: "\<And>e tgt x. I x \<Longrightarrow> I (endKeyboardPress env e tgt x)"
    and up: "\<And>e x. I x \<Longrightarrow> I (base_onKeyUp env e x)"
    and logs: "\<And>tgt event x. I x \<Longrightarrow> I (perform [DispatchKeyUp tgt event] x)"
    and drops: "\<And>x. I x \<Longrightarrow> I (state_update (\<lambda>cur. cur\<lparr>metaKeyEvents := None\<rparr>) x)"
    and holds: "I w"
  shows "I (onKeyUp env e w)"
proof -
  have once: "I (onKeyUp_once env e' x)" if "I x" for e' x
    using that by (simp add: onKeyUp_once_def ends split: option.splits)
  have replay: "I (replayKeyUp env tgt event x)" if "I x" for tgt event x
    using that by (simp add: replayKeyUp_def Let_def once up logs)
  have loop: "I (foldl (\<lambda>x event. replayKeyUp env tgt event x) x events)" if "I x"
    for tgt events x
    using that by (induction events arbitrary: x) (simp_all add: replay)
  show ?thesis
    unfolding onKeyUp_unfold Let_def
    by (simp add: holds ends loop drops split: option.splits)
qed

subsection \<open>The public store follows the pending start\<close>

lemma dispatchedTypes_none: "\<forall>x\<in>set es. \<not> isDispatch x \<Longrightarrow> dispatchedTypes es = []"
proof (induction es)
  case Nil
  show ?case by (simp add: dispatchedTypes_def)
next
  case (Cons x es)
  then have "dispatchedTypes es = []" by simp
  moreover have "\<not> isDispatch x" using Cons.prems by simp
  ultimately show ?case by (cases x) (simp_all add: dispatchedTypes_def)
qed

lemma tracked_perform [simp]:
  "\<forall>x\<in>set es. \<not> isDispatch x \<Longrightarrow> tracked k (perform es w) = tracked k w"
  by (cases k) (simp_all add: tracked_def storeAgrees_def startsBalanced_def perform_def
      dispatchedTypes_simps dispatchedTypes_none)

lemma tracked_state_update [simp]:
  "didFirePressStart (f (state w)) = didFirePressStart (state w) \<Longrightarrow>
   tracked k (state_update f w) = tracked k w"
  by (cases k) (simp_all add: tracked_def storeAgrees_def startsBalanced_def state_update_def)

lemma tracked_frame [simp]:
  "tracked k (addGlobalListener h w) = tracked k w"
  "tracked k (removeAllGlobalListeners w) = tracked k w"
  "tracked k (stopIf b w) = tracked k w"
  "tracked k (focusOnPress env el w) = tracked k w"
  by (cases k) (simp_all add: tracked_def storeAgrees_def startsBalanced_def
      addGlobalListener_def removeAllGlobalListeners_def stopIf_def focusOnPress_def
      perform_def dispatchedTypes_simps dispatchedTypes_def)

lemma tracked_triggerPressStart [simp]:
  "tracked k w \<Longrightarrow> tracked k (snd (triggerPressStart env e pt w))"
  by (cases k) (simp_all add: tracked_def storeAgrees_def startsBalanced_def triggerPressStart_def
      Let_def state_update_def perform_def dispatchedTypes_simps new_PressEvent_type)

lemma tracked_triggerPressEnd [simp]:
  "tracked k w \<Longrightarrow> tracked k (snd (triggerPressEnd env e pt b w))"
  by (cases k) (simp_all add: tracked_def storeAgrees_def startsBalanced_def triggerPressEnd_def
      Let_def state_update_def perform_def dispatchedTypes_simps new_PressEvent_type)

lemma tracked_triggerPressUp [simp]:
  "tracked k w \<Longrightarrow> tracked k (snd (triggerPressUp env e pt w))"
  by (cases k) (simp_all add: tracked_def storeAgrees_def startsBalanced_def triggerPressUp_def
      Let_def state_update_def perform_def dispatchedTypes_simps new_PressEvent_type)

lemma tracked_cancel [simp]:
  "tracked k w \<Longrightarrow> tracked k (cancel env e w)"
  by (simp add: cancel_def Let_def clearPress_def split: option.splits)

lemma tracked_cancelOnPointerExit [simp]:
  "tracked k w \<Longrightarrow> tracked k (cancelOnPointerExit env e w)"
  by (simp add: cancelOnPointerExit_def)



























text \<open>With a callback that does nothing the definitions with a callback are the plain ones.\<close>

lemma triggerPressStart_calling_nothing:
  "triggerPressStart_calling (\<lambda>ev x. x) env e pt w = triggerPressStart env e pt w"
  by (simp add: triggerPressStart_calling_def triggerPressStart_def Let_def perform_def)

lemma triggerPressEnd_calling_nothing:
  "triggerPressEnd_calling (\<lambda>ev x. x) env e pt wasPressed w
     = triggerPressEnd env e pt wasPressed w"
  by (simp add: triggerPressEnd_calling_def triggerPressEnd_def Let_def perform_def)

lemma cancel_calling_nothing: "cancel_calling (\<lambda>ev x. x) env e w = cancel env e w"
  unfolding cancel_calling_def cancel_def triggerPressEnd_calling_nothing
  by (rule refl)

lemma cancelOnPointerExit_calling_nothing:
  "cancelOnPointerExit_calling (\<lambda>ev x. x) env e w = cancelOnPointerExit env e w"
  unfolding cancelOnPointerExit_calling_def cancelOnPointerExit_def cancel_calling_nothing
  by (rule refl)

lemma onPointerMove_calling_nothing:
  "onPointerMove_calling (\<lambda>ev x. x) env pe w = onPointerMove env pe w"
  unfolding onPointerMove_calling_def onPointerMove_def triggerPressStart_calling_nothing
    triggerPressEnd_calling_nothing cancelOnPointerExit_calling_nothing
  by (rule refl)

lemmas calling_nothing =
  triggerPressStart_calling_nothing triggerPressEnd_calling_nothing cancel_calling_nothing
  cancelOnPointerExit_calling_nothing onPointerMove_calling_nothing




subsection \<open>A pressed state and its pointer type\<close>

text \<open>
  Claim C2 as stated fails. From the initial state, a first keydown of Enter on a
  button starts a press: the state field \<^verbatim>\<open>isPressed\<close> is true and \<^verbatim>\<open>pointerType\<close> is
  still null. The keyboard handlers pass the pointer type keyboard to the triggers
  themselves and never write the field.
\<close>

theorem keydown_press_has_no_pointer_type:
  "isPressed (state (step exampleEnv (KeyDown enterDown) initialWorld))
   \<and> pointerType (state (step exampleEnv (KeyDown enterDown) initialWorld)) = None
   \<and> dispatchedTypes (effects (step exampleEnv (KeyDown enterDown) initialWorld))
       = [pressstart]"
  by (simp add: base_onKeyDown_def Let_def split_def frame_simps isValidKeyboardEvent_def
      isHTMLorSVGElement_def isHTMLElement_def isHTMLAnchorLink_def falsy_def
      shouldPreventDefaultKeyboard_def dispatchedTypes_simps dispatchedTypes_def
      new_PressEvent_type example_defs)

lemma pressedHasTypeOrKey_handlers:
  assumes "pressedHasTypeOrKey w"
  shows "pressedHasTypeOrKey (base_onKeyUp env ke w)"
    and "pressedHasTypeOrKey (base_onClick env me w)"
    and "pressedHasTypeOrKey (onPointerUp env pe w)"
    and "pressedHasTypeOrKey (onPointerMove env pe w)"
    and "pressedHasTypeOrKey (onPointerCancel env pe w)"
    and "pressedHasTypeOrKey (pointer_onPointerDown env pe w)"
    and "pressedHasTypeOrKey (pointer_onMouseDown env me w)"
    and "pressedHasTypeOrKey (pointer_onPointerUp env pe w)"
    and "pressedHasTypeOrKey (onMouseUp env me w)"
    and "pressedHasTypeOrKey (onScroll env se w)"
    and "pressedHasTypeOrKey (nonpointer_onMouseDown env me w)"
    and "pressedHasTypeOrKey (nonpointer_onMouseEnter env me w)"
    and "pressedHasTypeOrKey (nonpointer_onMouseLeave env me w)"
    and "pressedHasTypeOrKey (nonpointer_onMouseUp env me w)"
    and "pressedHasTypeOrKey (nonpointer_onTouchStart env te w)"
    and "pressedHasTypeOrKey (nonpointer_onTouchMove env te w)"
    and "pressedHasTypeOrKey (nonpointer_onTouchEnd env te w)"
    and "pressedHasTypeOrKey (nonpointer_onTouchCancel env te w)"
    and "pressedHasTypeOrKey (nonpointer_onDragStart env me w)"
    and "pressedHasTypeOrKey (endKeyboardPress env ke tgt w)"
    and "pressedHasTypeOrKey (perform es w)"
    and "pressedHasTypeOrKey (state_update (\<lambda>cur. cur\<lparr>metaKeyEvents := None\<rparr>) w)"
    and "pressedHasTypeOrKey (base_onKeyDown env ke w)"
  using assms
  by (auto simp add: pressedHasTypeOrKey_def base_onKeyDown_def base_onKeyUp_def
      base_onClick_def onPointerUp_def onPointerMove_def onPointerCancel_def
      pointer_onPointerDown_def pointer_onMouseDown_def pointer_onPointerUp_def
      onMouseUp_def onScroll_def nonpointer_onMouseDown_def
      nonpointer_onMouseEnter_def nonpointer_onMouseLeave_def nonpointer_onMouseUp_def
      nonpointer_onTouchStart_def nonpointer_onTouchMove_def nonpointer_onTouchEnd_def
      nonpointer_onTouchCancel_def nonpointer_onDragStart_def endKeyboardPress_def
      cancelOnPointerExit_def cancel_def Let_def split_def frame_simps clearPress_def
      split: option.splits if_splits)

lemma pressedHasTypeOrKey_onKeyUp:
  "pressedHasTypeOrKey w \<Longrightarrow> pressedHasTypeOrKey (onKeyUp env ke w)"
  by (rule onKeyUp_keeps) (simp_all add: pressedHasTypeOrKey_handlers)

lemma pressedHasTypeOrKey_step:
  "pressedHasTypeOrKey w \<Longrightarrow> pressedHasTypeOrKey (step env ev w)"
  by (cases ev)
    (simp_all add: pressedHasTypeOrKey_handlers pressedHasTypeOrKey_onKeyUp whenListening_def)

lemma pressedHasTypeOrKey_run:
  "pressedHasTypeOrKey w \<Longrightarrow> pressedHasTypeOrKey (run evs w)"
proof (induction evs arbitrary: w)
  case Nil
  then show ?case by simp
next
  case (Cons x evs)
  obtain env ev where x: "x = (env, ev)" by (cases x)
  from Cons.prems have "pressedHasTypeOrKey (step env ev w)"
    by (rule pressedHasTypeOrKey_step)
  then show ?case unfolding x by (simp add: Cons.IH)
qed

lemma pressedHasType_handlers:
  assumes "pressedHasType w"
  shows "pressedHasType (base_onKeyUp env ke w)"
    and "pressedHasType (base_onClick env me w)"
    and "pressedHasType (onPointerUp env pe w)"
    and "pressedHasType (onPointerMove env pe w)"
    and "pressedHasType (onPointerCancel env pe w)"
    and "pressedHasType (pointer_onPointerDown env pe w)"
    and "pressedHasType (pointer_onMouseDown env me w)"
    and "pressedHasType (pointer_onPointerUp env pe w)"
    and "pressedHasType (onMouseUp env me w)"
    and "pressedHasType (onScroll env se w)"
    and "pressedHasType (nonpointer_onMouseDown env me w)"
    and "pressedHasType (nonpointer_onMouseEnter env me w)"
    and "pressedHasType (nonpointer_onMouseLeave env me w)"
    and "pressedHasType (nonpointer_onMouseUp env me w)"
    and "pressedHasType (nonpointer_onTouchStart env te w)"
    and "pressedHasType (nonpointer_onTouchMove env te w)"
    and "pressedHasType (nonpointer_onTouchEnd env te w)"
    and "pressedHasType (nonpointer_onTouchCancel env te w)"
    and "pressedHasType (nonpointer_onDragStart env me w)"
    and "pressedHasType (endKeyboardPress env ke tgt w)"
    and "pressedHasType (perform es w)"
    and "pressedHasType (state_update (\<lambda>cur. cur\<lparr>metaKeyEvents := None\<rparr>) w)"
  using assms
  by (auto simp add: pressedHasType_def base_onKeyDown_def base_onKeyUp_def
      base_onClick_def onPointerUp_def onPointerMove_def onPointerCancel_def
      pointer_onPointerDown_def pointer_onMouseDown_def pointer_onPointerUp_def
      onMouseUp_def onScroll_def nonpointer_onMouseDown_def
      nonpointer_onMouseEnter_def nonpointer_onMouseLeave_def nonpointer_onMouseUp_def
      nonpointer_onTouchStart_def nonpointer_onTouchMove_def nonpointer_onTouchEnd_def
      nonpointer_onTouchCancel_def nonpointer_onDragStart_def endKeyboardPress_def
      cancelOnPointerExit_def cancel_def Let_def split_def frame_simps clearPress_def
      split: option.splits if_splits)

lemma pressedHasType_onKeyUp:
  "pressedHasType w \<Longrightarrow> pressedHasType (onKeyUp env ke w)"
  by (rule onKeyUp_keeps) (simp_all add: pressedHasType_handlers)

text \<open>The keydown handler breaks the property exactly when it starts a press with no
  pointer type recorded.\<close>

lemma pressedHasType_base_onKeyDown:
  assumes "pressedHasType w"
  shows "pressedHasType (base_onKeyDown env ke w)
         \<longleftrightarrow> \<not> (startsKeyboardPress (KeyDown ke) w \<and> pointerType (state w) = None)"
  using assms
  by (auto simp add: pressedHasType_def base_onKeyDown_def Let_def split_def frame_simps
      split: option.splits if_splits)

lemma pressedHasType_step:
  assumes "pressedHasType w"
  shows "pressedHasType (step env ev w)
         \<longleftrightarrow> \<not> (startsKeyboardPress ev w \<and> pointerType (state w) = None)"
  using assms
  by (cases ev)
    (simp_all add: pressedHasType_handlers pressedHasType_onKeyUp
      pressedHasType_base_onKeyDown whenListening_def)

text \<open>
  Claim C2, amended. Whenever the state field \<^verbatim>\<open>isPressed\<close> is true, the field
  \<^verbatim>\<open>pointerType\<close> is non-null or the press is a keyboard press, with the document keyup
  listener registered. This holds after every sequence of events, keydowns included,
  each delivered under any configuration, and every single delivery keeps it. The
  original property, a non-null \<^verbatim>\<open>pointerType\<close> whenever \<^verbatim>\<open>isPressed\<close> is true, is kept
  by every delivery but one: a keydown that starts a keyboard press while
  \<^verbatim>\<open>pointerType\<close> is null, which breaks it.
\<close>

theorem pressed_has_type_or_keyboard_press:
  "pressedHasTypeOrKey (run evs initialWorld)
   \<and> (pressedHasTypeOrKey w \<longrightarrow> pressedHasTypeOrKey (step env ev w))
   \<and> (pressedHasType w \<longrightarrow>
        (pressedHasType (step env ev w)
         \<longleftrightarrow> \<not> (startsKeyboardPress ev w \<and> pointerType (state w) = None)))"
proof -
  have "pressedHasTypeOrKey initialWorld"
    by (simp add: pressedHasTypeOrKey_def initialWorld_def initialState_def)
  then have "pressedHasTypeOrKey (run evs initialWorld)"
    by (rule pressedHasTypeOrKey_run)
  then show ?thesis
    using pressedHasTypeOrKey_step [of w env ev] pressedHasType_step [of w env ev]
    by blast
qed

theorem pressed_has_type_or_keyboard_press_witness:
  "isPressed (state (run [(exampleEnv, KeyDown enterDown)] initialWorld))
   \<and> H_onKeyUp \<in> globalListeners (run [(exampleEnv, KeyDown enterDown)] initialWorld)
   \<and> isPressed (state (run [(exampleEnv, PointerDown (pointerEventAt 50 20)),
                              (exampleEnv, KeyDown enterDown)] initialWorld))
   \<and> pointerType (state (run [(exampleEnv, PointerDown (pointerEventAt 50 20)),
                                (exampleEnv, KeyDown enterDown)] initialWorld)) = Some Mouse"
proof -
  let ?k = "run [(exampleEnv, KeyDown enterDown)] initialWorld"
  let ?p = "run [(exampleEnv, PointerDown (pointerEventAt 50 20)),
                 (exampleEnv, KeyDown enterDown)] initialWorld"
  have key: "isPressed (state ?k)" "pointerType (state ?k) = None"
    by (simp_all add: base_onKeyDown_def Let_def split_def frame_simps
        isValidKeyboardEvent_def isHTMLorSVGElement_def isHTMLElement_def
        isHTMLAnchorLink_def falsy_def example_defs)
  have "pressedHasTypeOrKey ?k"
    using pressed_has_type_or_keyboard_press [of "[(exampleEnv, KeyDown enterDown)]"]
    by blast
  with key have listening: "H_onKeyUp \<in> globalListeners ?k"
    by (simp add: pressedHasTypeOrKey_def)
  have pointer: "isPressed (state ?p)" "pointerType (state ?p) = Some Mouse"
    by (simp_all add: base_onKeyDown_def pointer_onPointerDown_def Let_def split_def
        frame_simps isValidKeyboardEvent_def isHTMLorSVGElement_def isHTMLElement_def
        isHTMLAnchorLink_def falsy_def example_defs)
  show ?thesis
    using key listening pointer by simp
qed

end
